theory Spec2Isabelle
  imports Complex_Main
begin

section \<open>Conditional Wasserstein GAN: the model and its trainer (src/learning/cWGAN.py)\<close>

text \<open>
  The embedding follows \<^verbatim>\<open>cWGAN.py\<close> method by method. TensorFlow, Keras and NumPy are
  libraries outside the repository; what the source asks of them is gathered in one
  record of operations, \<open>tf_env\<close>, which every definition takes as its first argument.
  Tensor entries are real numbers (the source computes in float32; rounding is not
  modelled). A batch is a list of rows, one row per example, each row the example
  flattened. A raised Python exception is a value of type \<open>error\<close>; a method that
  mutates objects takes the state and returns it, also when it raises.
\<close>

subsection \<open>Values, errors, tensors\<close>

datatype error =
    KeyError string
  | TypeError
  | ValueError
  | AttributeError
  | ZeroDivisionError
  | IndexError
  | OSError
  | ConfigurationError
  | InsufficientDataError
  | PersistenceError

text \<open>
  The first seven are the exceptions Python, NumPy and the file system raise in the
  source. \<open>ConfigurationError\<close>, \<open>InsufficientDataError\<close> and \<open>PersistenceError\<close>
  are the names the specification uses; no line of the source defines or raises them.
\<close>

datatype pyval = PyInt int | PyFloat real | PyStr string

type_synonym var = nat
type_synonym tensor = "real list list"
type_synonym store = "var \<Rightarrow> real list"

datatype arch = DenseGenerator | DenseCritic | ConvGenerator | ConvCritic

record keras_model =
  arch :: arch
  trainable_variables :: "var list"

datatype opt_class = RMSprop | Adam

record optimizer =
  opt_class :: opt_class
  lr :: real
  iterations :: nat
  slots :: "var \<Rightarrow> real list"

datatype model_class = CWGAN | CWGAN_mnist

record cWGAN =
  model_class :: model_class
  clip_value :: real
  critic_optimizer :: "optimizer option"
  generator_optimizer :: "optimizer option"
  gp_weight :: real
  noise_dims :: int
  generator :: keras_model
  critic :: keras_model

text \<open>
  \<open>critic_optimizer\<close> and \<open>generator_optimizer\<close> are \<open>None\<close> when the constructor
  never assigned the attribute (neither branch of its \<^verbatim>\<open>if/elif\<close> taken).
\<close>

record world =
  vars :: store
  next_var :: nat
  tf_draws :: nat
  np_draws :: nat
  files :: "string \<rightharpoonup> real list list"

text \<open>
  The state outside the Python objects: the values of the TensorFlow variables, the next
  unused variable, how many draws TensorFlow's and NumPy's random generators have made,
  and the checkpoint files written so far.
\<close>

record tf_env =
  call :: "keras_model \<Rightarrow> store \<Rightarrow> bool \<Rightarrow> tensor list \<Rightarrow> tensor"
  tape_gradient_input :: "(tensor \<Rightarrow> tensor) \<Rightarrow> tensor \<Rightarrow> tensor"
  tape_gradient_vars :: "(store \<Rightarrow> real) \<Rightarrow> store \<Rightarrow> var list \<Rightarrow> real list list"
  opt_update :: "optimizer \<Rightarrow> var \<Rightarrow> real list \<Rightarrow> real list \<Rightarrow> real list \<times> real list"
  initializer :: "var \<Rightarrow> real list"
  random_uniform :: "nat \<Rightarrow> real \<Rightarrow> real \<Rightarrow> nat \<Rightarrow> nat \<Rightarrow> real"
  random_normal :: "nat \<Rightarrow> real \<Rightarrow> real \<Rightarrow> nat \<Rightarrow> real"
  np_permutation :: "nat \<Rightarrow> nat \<Rightarrow> nat list"
  write_error :: "string \<Rightarrow> error option"
  make_save_directory :: "string \<Rightarrow> error + string"
  load_jet_data :: "pyval \<Rightarrow> error + (tensor \<times> tensor)"
  load_mnist_data :: "error + (tensor \<times> tensor)"
  concatenate_images_labels :: "tensor \<Rightarrow> tensor \<Rightarrow> tensor"

text \<open>
  \<^item> \<open>call m \<sigma> training inputs\<close>: the forward pass \<^verbatim>\<open>m(inputs, training=...)\<close> of a
    Keras model at the variable values \<open>\<sigma>\<close>. No layer of the four architectures keeps
    running statistics, so a forward pass changes no variable.
  \<^item> \<open>tape_gradient_input f y\<close>: \<^verbatim>\<open>GradientTape.gradient(f(y), y)\<close> for a watched tensor.
  \<^item> \<open>tape_gradient_vars L \<sigma> vs\<close>: \<^verbatim>\<open>GradientTape.gradient(L, vs)\<close>, the gradient at
    \<open>\<sigma>\<close> of the taped scalar, as a function of the variable values, one entry per
    variable of \<open>vs\<close>.
  \<^item> \<open>opt_update opt v g old\<close>: the new value of variable \<open>v\<close> and of its optimizer slot
    after one update with gradient \<open>g\<close> (the RMSprop or Adam rule of Keras).
  \<^item> \<open>random_uniform d minval maxval i j\<close>: entry \<open>(i, j)\<close> of the \<open>d\<close>-th tensor drawn,
    when drawn by \<^verbatim>\<open>tf.random.uniform(shape, minval, maxval)\<close>;
    \<open>random_normal d mean stddev i\<close>: entry \<open>i\<close> of that tensor when drawn by
    \<^verbatim>\<open>tf.random.normal(shape, mean, stddev)\<close>.
  \<^item> \<open>np_permutation d n\<close>: the permutation of \<open>0..n-1\<close> behind NumPy's \<open>d\<close>-th draw.
  \<^item> \<open>write_error f\<close>: the exception, if any, that writing file \<open>f\<close> raises.
  \<^item> the last four are \<^verbatim>\<open>file_utils\<close> and \<^verbatim>\<open>data_utils\<close>, modules of the
    repository that the sources at hand do not include.
\<close>

subsection \<open>Tensor operations\<close>

definition reduce_mean :: "tensor \<Rightarrow> real" where
  "reduce_mean t = sum_list (concat t) / real (length (concat t))"

text \<open>
  Elementwise operations on two batches pair rows and entries by position. In the source
  both operands always come from the same batch; TensorFlow's broadcasting of other
  shapes is not modelled.
\<close>

definition tensor_sub :: "tensor \<Rightarrow> tensor \<Rightarrow> tensor" where
  "tensor_sub a b = map2 (\<lambda>ra rb. map2 (\<lambda>p q. p - q) ra rb) a b"

definition tensor_add :: "tensor \<Rightarrow> tensor \<Rightarrow> tensor" where
  "tensor_add a b = map2 (\<lambda>ra rb. map2 (\<lambda>p q. p + q) ra rb) a b"

definition scale_rows :: "real list \<Rightarrow> tensor \<Rightarrow> tensor" where
  "scale_rows t a = map2 (\<lambda>ti row. map (\<lambda>p. ti * p) row) t a"

text \<open>\<open>scale_rows\<close> is \<^verbatim>\<open>t * a\<close> for \<open>t\<close> of shape \<open>[batch, 1]\<close>: row \<open>i\<close> is scaled by \<open>t[i]\<close>.\<close>

definition tf_random_uniform :: "tf_env \<Rightarrow> nat \<Rightarrow> nat \<Rightarrow> real \<Rightarrow> real \<Rightarrow> world \<Rightarrow> tensor \<times> world" where
  "tf_random_uniform K b n minval maxval w =
     (map (\<lambda>i. map (\<lambda>j. random_uniform K (tf_draws w) minval maxval i j) [0..<n]) [0..<b],
      w\<lparr>tf_draws := Suc (tf_draws w)\<rparr>)"

definition tf_random_normal :: "tf_env \<Rightarrow> nat \<Rightarrow> real \<Rightarrow> real \<Rightarrow> world \<Rightarrow> real list \<times> world" where
  "tf_random_normal K b mean stddev w =
     (map (\<lambda>i. random_normal K (tf_draws w) mean stddev i) [0..<b],
      w\<lparr>tf_draws := Suc (tf_draws w)\<rparr>)"

subsection \<open>class cWGAN: losses\<close>

definition critic_loss :: "tensor \<Rightarrow> tensor \<Rightarrow> real" where
  "critic_loss real_output fake_output = - (reduce_mean real_output - reduce_mean fake_output)"

definition generator_loss :: "tensor \<Rightarrow> real" where
  "generator_loss fake_output = - reduce_mean fake_output"

subsection \<open>class cWGAN: gradient penalty\<close>

definition interpolate_data :: "tf_env \<Rightarrow> tensor \<Rightarrow> tensor \<Rightarrow> world \<Rightarrow> tensor \<times> world" where
  "interpolate_data K y_real y_gen w =
     (let batch_size = length y_real;
          (t, w') = tf_random_normal K batch_size 0 1 w;
          diff = tensor_sub y_gen y_real;
          y_new = tensor_add (scale_rows t diff) y_real
      in (y_new, w'))"

definition grad_norms :: "tensor \<Rightarrow> real list" where
  "grad_norms grads = map (\<lambda>g. sqrt (sum_list (map (\<lambda>p. p\<^sup>2) g))) grads"

definition gradient_penalty :: "tf_env \<Rightarrow> cWGAN \<Rightarrow> tensor \<Rightarrow> tensor \<Rightarrow> tensor \<Rightarrow> world \<Rightarrow> real \<times> world" where
  "gradient_penalty K m x y_real y_gen w =
     (let (y_interpolated, w') = interpolate_data K y_real y_gen w;
          grads = tape_gradient_input K
                    (\<lambda>yi. call K (critic m) (vars w') True [x, yi]) y_interpolated;
          norm = grad_norms grads;
          gp = reduce_mean [map (\<lambda>n. (n - 1.0)\<^sup>2) norm]
      in (gp, w'))"

subsection \<open>class cWGAN: optimization steps\<close>

fun apply_gradients :: "tf_env \<Rightarrow> optimizer \<Rightarrow> (real list \<times> var) list \<Rightarrow> store \<Rightarrow> optimizer \<times> store" where
  "apply_gradients K opt [] \<sigma> = (opt\<lparr>iterations := Suc (iterations opt)\<rparr>, \<sigma>)"
| "apply_gradients K opt ((g, v) # gvs) \<sigma> =
     (let (new, slot) = opt_update K opt v g (\<sigma> v)
      in apply_gradients K (opt\<lparr>slots := (slots opt)(v := slot)\<rparr>) gvs (\<sigma>(v := new)))"

text \<open>
  The body of the \<^verbatim>\<open>with tf.GradientTape(persistent=True) as tape\<close> block of
  \<^verbatim>\<open>cWGAN.train_critic\<close>: it returns \<^verbatim>\<open>critic_loss_val\<close>. The tape differentiates this
  value as a function of the variable values, the random draws being those already made.
\<close>

definition critic_tape :: "tf_env \<Rightarrow> cWGAN \<Rightarrow> tensor \<Rightarrow> tensor \<Rightarrow> tensor \<Rightarrow> world \<Rightarrow> real \<times> world" where
  "critic_tape K m x y noise w =
     (let predicted_y = call K (generator m) (vars w) False [x, noise];
          real_output = call K (critic m) (vars w) True [x, y];
          fake_output = call K (critic m) (vars w) True [x, predicted_y];
          (gp, w') = gradient_penalty K m x y predicted_y w
      in (critic_loss real_output fake_output + gp_weight m * gp, w'))"

definition train_critic :: "tf_env \<Rightarrow> cWGAN \<Rightarrow> tensor \<Rightarrow> tensor \<Rightarrow> world \<Rightarrow> (error + real) \<times> cWGAN \<times> world" where
  "train_critic K m x y w =
     (let (noise, w1) = tf_random_uniform K (length x) (nat (noise_dims m)) 0 1 w;
          (critic_loss_val, w2) = critic_tape K m x y noise w1;
          critic_grads = tape_gradient_vars K
                           (\<lambda>\<sigma>. fst (critic_tape K m x y noise (w1\<lparr>vars := \<sigma>\<rparr>)))
                           (vars w1) (trainable_variables (critic m))
      in case critic_optimizer m of
           None \<Rightarrow> (Inl AttributeError, m, w2)
         | Some opt \<Rightarrow>
             (let (opt', \<sigma>') = apply_gradients K opt
                                 (zip critic_grads (trainable_variables (critic m))) (vars w2)
              in (Inr critic_loss_val, m\<lparr>critic_optimizer := Some opt'\<rparr>, w2\<lparr>vars := \<sigma>'\<rparr>)))"

definition generator_tape :: "tf_env \<Rightarrow> cWGAN \<Rightarrow> tensor \<Rightarrow> tensor \<Rightarrow> world \<Rightarrow> real" where
  "generator_tape K m x noise w =
     (let predicted_y = call K (generator m) (vars w) True [x, noise];
          fake_output = call K (critic m) (vars w) False [x, predicted_y]
      in generator_loss fake_output)"

definition train_generator :: "tf_env \<Rightarrow> cWGAN \<Rightarrow> tensor \<Rightarrow> world \<Rightarrow> (error + real) \<times> cWGAN \<times> world" where
  "train_generator K m x w =
     (let (noise, w1) = tf_random_uniform K (length x) (nat (noise_dims m)) 0 1 w;
          generator_loss_val = generator_tape K m x noise w1;
          generator_grads = tape_gradient_vars K
                              (\<lambda>\<sigma>. generator_tape K m x noise (w1\<lparr>vars := \<sigma>\<rparr>))
                              (vars w1) (trainable_variables (generator m))
      in case generator_optimizer m of
           None \<Rightarrow> (Inl AttributeError, m, w1)
         | Some opt \<Rightarrow>
             (let (opt', \<sigma>') = apply_gradients K opt
                                 (zip generator_grads (trainable_variables (generator m))) (vars w1)
              in (Inr generator_loss_val, m\<lparr>generator_optimizer := Some opt'\<rparr>, w1\<lparr>vars := \<sigma>'\<rparr>)))"

definition make_generator_predictions :: "tf_env \<Rightarrow> cWGAN \<Rightarrow> tensor \<Rightarrow> world \<Rightarrow> tensor \<times> world" where
  "make_generator_predictions K m x w =
     (let (noise, w1) = tf_random_uniform K (length x) (nat (noise_dims m)) 0 1 w;
          predictions = call K (generator m) (vars w1) False [x, noise]
      in (predictions, w1))"

subsection \<open>class cWGAN\_mnist: the overridden optimization steps\<close>

definition mnist_critic_tape :: "tf_env \<Rightarrow> cWGAN \<Rightarrow> tensor \<Rightarrow> tensor \<Rightarrow> tensor \<Rightarrow> world \<Rightarrow> real" where
  "mnist_critic_tape K m labels images noise w =
     (let concat_real = concatenate_images_labels K images labels;
          generated_images = call K (generator m) (vars w) False [labels, noise];
          concat_fake = concatenate_images_labels K generated_images labels;
          real_output = call K (critic m) (vars w) True [concat_real];
          fake_output = call K (critic m) (vars w) True [concat_fake]
      in critic_loss real_output fake_output)"

definition mnist_train_critic :: "tf_env \<Rightarrow> cWGAN \<Rightarrow> tensor \<Rightarrow> tensor \<Rightarrow> world \<Rightarrow> (error + real) \<times> cWGAN \<times> world" where
  "mnist_train_critic K m labels images w =
     (let (noise, w1) = tf_random_uniform K (length labels) (nat (noise_dims m)) 0 1 w;
          critic_loss_val = mnist_critic_tape K m labels images noise w1;
          critic_grads = tape_gradient_vars K
                           (\<lambda>\<sigma>. mnist_critic_tape K m labels images noise (w1\<lparr>vars := \<sigma>\<rparr>))
                           (vars w1) (trainable_variables (critic m))
      in case critic_optimizer m of
           None \<Rightarrow> (Inl AttributeError, m, w1)
         | Some opt \<Rightarrow>
             (let (opt', \<sigma>') = apply_gradients K opt
                                 (zip critic_grads (trainable_variables (critic m))) (vars w1)
              in (Inr critic_loss_val, m\<lparr>critic_optimizer := Some opt'\<rparr>, w1\<lparr>vars := \<sigma>'\<rparr>)))"

definition mnist_generator_tape :: "tf_env \<Rightarrow> cWGAN \<Rightarrow> tensor \<Rightarrow> tensor \<Rightarrow> world \<Rightarrow> real" where
  "mnist_generator_tape K m labels noise w =
     (let generated_images = call K (generator m) (vars w) True [labels, noise];
          concat_fake = concatenate_images_labels K generated_images labels;
          fake_output = call K (critic m) (vars w) False [concat_fake]
      in generator_loss fake_output)"

definition mnist_train_generator :: "tf_env \<Rightarrow> cWGAN \<Rightarrow> tensor \<Rightarrow> world \<Rightarrow> (error + real) \<times> cWGAN \<times> world" where
  "mnist_train_generator K m labels w =
     (let (noise, w1) = tf_random_uniform K (length labels) (nat (noise_dims m)) 0 1 w;
          generator_loss_val = mnist_generator_tape K m labels noise w1;
          generator_grads = tape_gradient_vars K
                              (\<lambda>\<sigma>. mnist_generator_tape K m labels noise (w1\<lparr>vars := \<sigma>\<rparr>))
                              (vars w1) (trainable_variables (generator m))
      in case generator_optimizer m of
           None \<Rightarrow> (Inl AttributeError, m, w1)
         | Some opt \<Rightarrow>
             (let (opt', \<sigma>') = apply_gradients K opt
                                 (zip generator_grads (trainable_variables (generator m))) (vars w1)
              in (Inr generator_loss_val, m\<lparr>generator_optimizer := Some opt'\<rparr>, w1\<lparr>vars := \<sigma>'\<rparr>)))"

text \<open>Method dispatch on the class of the model object.\<close>

definition model_train_critic :: "tf_env \<Rightarrow> cWGAN \<Rightarrow> tensor \<Rightarrow> tensor \<Rightarrow> world \<Rightarrow> (error + real) \<times> cWGAN \<times> world" where
  "model_train_critic K m x y w =
     (case model_class m of CWGAN \<Rightarrow> train_critic K m x y w
                          | CWGAN_mnist \<Rightarrow> mnist_train_critic K m x y w)"

definition model_train_generator :: "tf_env \<Rightarrow> cWGAN \<Rightarrow> tensor \<Rightarrow> world \<Rightarrow> (error + real) \<times> cWGAN \<times> world" where
  "model_train_generator K m x w =
     (case model_class m of CWGAN \<Rightarrow> train_generator K m x w
                          | CWGAN_mnist \<Rightarrow> mnist_train_generator K m x w)"

subsection \<open>Python values and calls\<close>

definition and_then :: "error + 'a \<Rightarrow> ('a \<Rightarrow> error + 'b) \<Rightarrow> error + 'b" where
  "and_then r f = (case r of Inl e \<Rightarrow> Inl e | Inr v \<Rightarrow> f v)"

definition lookup :: "(string \<rightharpoonup> pyval) \<Rightarrow> string \<Rightarrow> error + pyval" where
  "lookup params_dict k = (case params_dict k of None \<Rightarrow> Inl (KeyError k) | Some v \<Rightarrow> Inr v)"

text \<open>
  Configuration values have the types the docstrings give them. A value of another Python
  type is rejected with \<open>TypeError\<close> where it is bound to a typed field or parameter
  (Python itself would store it and fail at its first numeric use).
\<close>

definition as_int :: "pyval \<Rightarrow> error + int" where
  "as_int v = (case v of PyInt i \<Rightarrow> Inr i | _ \<Rightarrow> Inl TypeError)"

definition as_float :: "pyval \<Rightarrow> error + real" where
  "as_float v = (case v of PyFloat r \<Rightarrow> Inr r | PyInt i \<Rightarrow> Inr (of_int i) | PyStr _ \<Rightarrow> Inl TypeError)"

definition get_int :: "(string \<rightharpoonup> pyval) \<Rightarrow> string \<Rightarrow> error + int" where
  "get_int params_dict k = and_then (lookup params_dict k) as_int"

definition py_range :: "int \<Rightarrow> int list" where
  "py_range n = map int [0..<nat n]"

fun for_each :: "(int \<Rightarrow> 's \<Rightarrow> error option \<times> 's) \<Rightarrow> int list \<Rightarrow> 's \<Rightarrow> error option \<times> 's" where
  "for_each body [] s = (None, s)"
| "for_each body (i # is) s =
     (case body i s of (Some e, s') \<Rightarrow> (Some e, s') | (None, s') \<Rightarrow> for_each body is s')"

text \<open>\<open>for_each body (py_range n)\<close> is \<^verbatim>\<open>for i in range(n): body\<close>; an exception ends the loop.\<close>

definition digit_char :: "nat \<Rightarrow> char" where
  "digit_char d = ''0123456789'' ! d"

fun str_nat :: "nat \<Rightarrow> string" where
  "str_nat n = (if n < 10 then [digit_char n] else str_nat (n div 10) @ [digit_char (n mod 10)])"

declare str_nat.simps [simp del]

definition str_int :: "int \<Rightarrow> string" where
  "str_int i = (if i < 0 then CHR ''-'' # str_nat (nat (- i)) else str_nat (nat i))"

definition os_path_join :: "string \<Rightarrow> string \<Rightarrow> string" where
  "os_path_join a b =
     (if b \<noteq> [] \<and> hd b = CHR ''/'' then b
      else if a = [] \<or> last a = CHR ''/'' then a @ b
      else a @ ''/'' @ b)"

subsection \<open>class cWGAN: construction\<close>

definition new_optimizer :: "opt_class \<Rightarrow> real \<Rightarrow> optimizer" where
  "new_optimizer c l = \<lparr>opt_class = c, lr = l, iterations = 0, slots = (\<lambda>_. [])\<rparr>"

text \<open>
  \<^verbatim>\<open>keras.Model(inputs, out)\<close> over freshly created layers: the model's trainable
  variables are \<open>n\<close> variables no earlier model owns, set by their initializers.
\<close>

definition new_model :: "tf_env \<Rightarrow> arch \<Rightarrow> nat \<Rightarrow> world \<Rightarrow> keras_model \<times> world" where
  "new_model K a n w =
     (\<lparr>arch = a, trainable_variables = [next_var w ..< next_var w + n]\<rparr>,
      w\<lparr>next_var := next_var w + n,
        vars := (\<lambda>v. if next_var w \<le> v \<and> v < next_var w + n then initializer K v else vars w v)\<rparr>)"

text \<open>
  Variables per architecture: a \<^verbatim>\<open>Dense\<close> or \<^verbatim>\<open>Conv2D\<close> layer has a kernel and a bias,
  a \<^verbatim>\<open>Conv2DTranspose(..., use_bias=False)\<close> layer a kernel only. The dense generator
  and critic have six \<^verbatim>\<open>Dense\<close> layers each; the MNIST generator has five \<^verbatim>\<open>Dense\<close>
  and three \<^verbatim>\<open>Conv2DTranspose\<close> layers, the MNIST critic five \<^verbatim>\<open>Conv2D\<close> layers.
\<close>

definition build_generator :: "tf_env \<Rightarrow> model_class \<Rightarrow> int \<Rightarrow> world \<Rightarrow> keras_model \<times> world" where
  "build_generator K cls noise_dims' w =
     (case cls of CWGAN \<Rightarrow> new_model K DenseGenerator (2 * 6) w
                | CWGAN_mnist \<Rightarrow> new_model K ConvGenerator (2 * 5 + 3) w)"

definition build_critic :: "tf_env \<Rightarrow> model_class \<Rightarrow> world \<Rightarrow> keras_model \<times> world" where
  "build_critic K cls w =
     (case cls of CWGAN \<Rightarrow> new_model K DenseCritic (2 * 6) w
                | CWGAN_mnist \<Rightarrow> new_model K ConvCritic (2 * 5) w)"

definition cWGAN_init ::
  "tf_env \<Rightarrow> model_class \<Rightarrow> real \<Rightarrow> int \<Rightarrow> pyval \<Rightarrow> real \<Rightarrow> real \<Rightarrow> real \<Rightarrow> world \<Rightarrow> cWGAN \<times> world" where
  "cWGAN_init K cls clip_value' noise_dims' optimizer gen_lr critic_lr gp_weight' w =
     (let (critic_opt, generator_opt) =
            (if optimizer = PyStr ''RMSprop''
               then (Some (new_optimizer RMSprop critic_lr), Some (new_optimizer RMSprop gen_lr))
             else if optimizer = PyStr ''Adam''
               then (Some (new_optimizer Adam critic_lr), Some (new_optimizer Adam gen_lr))
             else (None, None));
          (gen, w1) = build_generator K cls noise_dims' w;
          (crit, w2) = build_critic K cls w1
      in (\<lparr>model_class = cls, clip_value = clip_value',
           critic_optimizer = critic_opt, generator_optimizer = generator_opt,
           gp_weight = gp_weight', noise_dims = noise_dims',
           generator = gen, critic = crit\<rparr>, w2))"

text \<open>
  The call \<^verbatim>\<open>cWGAN(...)\<close> or \<^verbatim>\<open>cWGAN_mnist(...)\<close> with positional arguments: Python binds
  them to the six parameters of \<^verbatim>\<open>cWGAN.__init__\<close> (which \<^verbatim>\<open>cWGAN_mnist\<close> inherits) and
  raises \<open>TypeError\<close> when their number is not six.
\<close>

definition cWGAN_new :: "tf_env \<Rightarrow> model_class \<Rightarrow> pyval list \<Rightarrow> world \<Rightarrow> error + (cWGAN \<times> world)" where
  "cWGAN_new K cls args w =
     (case args of
        [clip_value', noise_dims', optimizer, gen_lr, critic_lr, gp_weight'] \<Rightarrow>
          and_then (as_float clip_value') (\<lambda>cv.
          and_then (as_int noise_dims') (\<lambda>nd.
          and_then (as_float gen_lr) (\<lambda>gl.
          and_then (as_float critic_lr) (\<lambda>cl.
          and_then (as_float gp_weight') (\<lambda>gw.
            Inr (cWGAN_init K cls cv nd optimizer gl cl gw w))))))
      | _ \<Rightarrow> Inl TypeError)"

subsection \<open>class Trainer\<close>

datatype trainer_class = Trainer | MNISTTrainer

record trainer =
  trainer_class :: trainer_class
  save_dir :: string
  num_critic_iters :: int
  batch_size :: int
  model :: cWGAN
  data :: "tensor \<times> tensor"
  epochs :: int
  num_training_examples :: nat
  weight_saving_interval :: int
  critic_losses :: "real list"
  generator_losses :: "real list"
  wass_estimates :: "real list"

definition Trainer_init :: "tf_env \<Rightarrow> (string \<rightharpoonup> pyval) \<Rightarrow> world \<Rightarrow> error + (trainer \<times> world)" where
  "Trainer_init K params_dict w =
     and_then (make_save_directory K ''cWGAN'') (\<lambda>sd.
     and_then (get_int params_dict ''num_critic_iters'') (\<lambda>nci.
     and_then (get_int params_dict ''batch_size'') (\<lambda>bs.
     and_then (lookup params_dict ''gen_lr'') (\<lambda>gen_lr.
     and_then (lookup params_dict ''critic_lr'') (\<lambda>critic_lr.
     and_then (lookup params_dict ''clip_value'') (\<lambda>clip_value'.
     and_then (lookup params_dict ''optimizer'') (\<lambda>optimizer.
     and_then (lookup params_dict ''noise_dims'') (\<lambda>noise_dims'.
     and_then (lookup params_dict ''gp_weight'') (\<lambda>gp_weight'.
     and_then (cWGAN_new K CWGAN [clip_value', noise_dims', optimizer, gen_lr, critic_lr, gp_weight'] w)
       (\<lambda>(m, w1).
     and_then (lookup params_dict ''data_path'') (\<lambda>data_path.
     and_then (load_jet_data K data_path) (\<lambda>d.
     and_then (get_int params_dict ''epochs'') (\<lambda>ep.
     and_then (get_int params_dict ''weight_saving_interval'') (\<lambda>wsi.
       Inr (\<lparr>trainer_class = Trainer, save_dir = sd, num_critic_iters = nci, batch_size = bs,
             model = m, data = d, epochs = ep,
             num_training_examples = length (fst d),
             weight_saving_interval = wsi,
             critic_losses = [], generator_losses = [], wass_estimates = []\<rparr>, w1)))))))))))))))"

definition MNISTTrainer_init :: "tf_env \<Rightarrow> (string \<rightharpoonup> pyval) \<Rightarrow> world \<Rightarrow> error + (trainer \<times> world)" where
  "MNISTTrainer_init K params_dict w =
     and_then (make_save_directory K ''cWGAN'') (\<lambda>sd.
     and_then (get_int params_dict ''num_critic_iters'') (\<lambda>nci.
     and_then (get_int params_dict ''batch_size'') (\<lambda>bs.
     and_then (lookup params_dict ''clip_value'') (\<lambda>clip_value'.
     and_then (lookup params_dict ''noise_dims'') (\<lambda>noise_dims'.
     and_then (lookup params_dict ''gen_lr'') (\<lambda>gen_lr.
     and_then (lookup params_dict ''critic_lr'') (\<lambda>critic_lr.
     and_then (lookup params_dict ''gp_weight'') (\<lambda>gp_weight'.
     and_then (cWGAN_new K CWGAN_mnist [clip_value', noise_dims', gen_lr, critic_lr, gp_weight'] w)
       (\<lambda>(m, w1).
     and_then (load_mnist_data K) (\<lambda>d.
     and_then (get_int params_dict ''epochs'') (\<lambda>ep.
     and_then (get_int params_dict ''weight_saving_interval'') (\<lambda>wsi.
       Inr (\<lparr>trainer_class = MNISTTrainer, save_dir = sd, num_critic_iters = nci, batch_size = bs,
             model = m, data = d, epochs = ep,
             num_training_examples = length (fst d),
             weight_saving_interval = wsi,
             critic_losses = [], generator_losses = [], wass_estimates = []\<rparr>, w1)))))))))))))"

text \<open>
  \<^verbatim>\<open>data[indices]\<close>: NumPy raises \<open>IndexError\<close> for an index outside the array.
\<close>

definition gather :: "'a list \<Rightarrow> nat list \<Rightarrow> error + 'a list" where
  "gather xs indices =
     (if list_all (\<lambda>i. i < length xs) indices then Inr (map (\<lambda>i. xs ! i) indices)
      else Inl IndexError)"

text \<open>
  \<open>num_training_examples\<close> is a \<^verbatim>\<open>len(...)\<close>, a natural number.
  \<^verbatim>\<open>np.random.choice(np.arange(n), k, replace=False)\<close> raises \<open>ValueError\<close> for a negative
  size, for a sample larger than the population, and for an empty population unless no
  sample is taken; otherwise it returns the first \<open>k\<close> entries of a random permutation.
\<close>

definition np_random_choice :: "tf_env \<Rightarrow> nat \<Rightarrow> int \<Rightarrow> world \<Rightarrow> (error + nat list) \<times> world" where
  "np_random_choice K n k w =
     (if k < 0 \<or> int n < k \<or> (n = 0 \<and> k \<noteq> 0) then (Inl ValueError, w)
      else (Inr (take (nat k) (np_permutation K (np_draws w) n)),
            w\<lparr>np_draws := Suc (np_draws w)\<rparr>))"

definition sample_batch_of_data :: "tf_env \<Rightarrow> trainer \<Rightarrow> world \<Rightarrow> (error + tensor \<times> tensor) \<times> world" where
  "sample_batch_of_data K tr w =
     (case np_random_choice K (num_training_examples tr) (batch_size tr) w of
        (Inl e, w1) \<Rightarrow> (Inl e, w1)
      | (Inr indices, w1) \<Rightarrow>
          (case gather (fst (data tr)) indices of
             Inl e \<Rightarrow> (Inl e, w1)
           | Inr x \<Rightarrow>
               (case gather (snd (data tr)) indices of
                  Inl e \<Rightarrow> (Inl e, w1)
                | Inr y \<Rightarrow> (Inr (x, y), w1))))"

definition take_critic_step :: "tf_env \<Rightarrow> trainer \<times> world \<Rightarrow> error option \<times> trainer \<times> world" where
  "take_critic_step K s =
     (case s of (tr, w) \<Rightarrow>
        (case sample_batch_of_data K tr w of
           (Inl e, w1) \<Rightarrow> (Some e, tr, w1)
         | (Inr (x, y), w1) \<Rightarrow>
             (case model_train_critic K (model tr) x y w1 of
                (Inl e, m', w2) \<Rightarrow> (Some e, tr\<lparr>model := m'\<rparr>, w2)
              | (Inr critic_loss_val, m', w2) \<Rightarrow>
                  (None, tr\<lparr>model := m', critic_losses := critic_losses tr @ [critic_loss_val]\<rparr>, w2))))"

definition take_generator_step :: "tf_env \<Rightarrow> trainer \<times> world \<Rightarrow> error option \<times> trainer \<times> world" where
  "take_generator_step K s =
     (case s of (tr, w) \<Rightarrow>
        (case sample_batch_of_data K tr w of
           (Inl e, w1) \<Rightarrow> (Some e, tr, w1)
         | (Inr (x, y), w1) \<Rightarrow>
             (case model_train_generator K (model tr) x w1 of
                (Inl e, m', w2) \<Rightarrow> (Some e, tr\<lparr>model := m'\<rparr>, w2)
              | (Inr generator_loss_val, m', w2) \<Rightarrow>
                  (let (predicted_y, w3) = make_generator_predictions K m' x w2;
                       real_output = call K (critic m') (vars w3) False [x, y];
                       fake_output = call K (critic m') (vars w3) False [x, predicted_y];
                       wass_estimate = - critic_loss real_output fake_output
                   in (None,
                       tr\<lparr>model := m',
                          generator_losses := generator_losses tr @ [generator_loss_val],
                          wass_estimates := wass_estimates tr @ [wass_estimate]\<rparr>, w3)))))"

definition mnist_take_generator_step :: "tf_env \<Rightarrow> trainer \<times> world \<Rightarrow> error option \<times> trainer \<times> world" where
  "mnist_take_generator_step K s =
     (case s of (tr, w) \<Rightarrow>
        (case sample_batch_of_data K tr w of
           (Inl e, w1) \<Rightarrow> (Some e, tr, w1)
         | (Inr (labels, images), w1) \<Rightarrow>
             (let concat_real = concatenate_images_labels K images labels
              in case model_train_generator K (model tr) labels w1 of
                   (Inl e, m', w2) \<Rightarrow> (Some e, tr\<lparr>model := m'\<rparr>, w2)
                 | (Inr generator_loss_val, m', w2) \<Rightarrow>
                     (let (predicted_images, w3) = make_generator_predictions K m' labels w2;
                          concat_fake = concatenate_images_labels K predicted_images labels;
                          real_output = call K (critic m') (vars w3) False [concat_real];
                          fake_output = call K (critic m') (vars w3) False [concat_fake];
                          wass_estimate = - critic_loss real_output fake_output
                      in (None,
                          tr\<lparr>model := m',
                             generator_losses := generator_losses tr @ [generator_loss_val],
                             wass_estimates := wass_estimates tr @ [wass_estimate]\<rparr>, w3)))))"

definition trainer_take_generator_step :: "tf_env \<Rightarrow> trainer \<times> world \<Rightarrow> error option \<times> trainer \<times> world" where
  "trainer_take_generator_step K s =
     (case trainer_class (fst s) of Trainer \<Rightarrow> take_generator_step K s
                                  | MNISTTrainer \<Rightarrow> mnist_take_generator_step K s)"

text \<open>The two local assignments of \<^verbatim>\<open>save_weights\<close> that name the checkpoint file.\<close>

definition gen_filename :: "string \<Rightarrow> int \<Rightarrow> string" where
  "gen_filename sd iteration =
     (let checkpoint_dir = sd @ ''/training_checkpoints''
      in os_path_join checkpoint_dir (''gen_'' @ str_int iteration))"

definition save_weights :: "tf_env \<Rightarrow> int \<Rightarrow> trainer \<times> world \<Rightarrow> error option \<times> trainer \<times> world" where
  "save_weights K iteration s =
     (case s of (tr, w) \<Rightarrow>
        (case write_error K (gen_filename (save_dir tr) iteration) of
           Some e \<Rightarrow> (Some e, tr, w)
         | None \<Rightarrow>
             (None, tr,
              w\<lparr>files := (files w)(gen_filename (save_dir tr) iteration \<mapsto>
                   map (vars w) (trainable_variables (generator (model tr))))\<rparr>)))"

text \<open>
  The body of the loop over \<^verbatim>\<open>batch_number\<close> in \<^verbatim>\<open>Trainer.train\<close>. \<^verbatim>\<open>iteration % 0\<close>
  raises \<open>ZeroDivisionError\<close>. Console output and timing are not modelled.
\<close>

definition train_batch :: "tf_env \<Rightarrow> int \<Rightarrow> int \<Rightarrow> int \<Rightarrow> trainer \<times> world \<Rightarrow> error option \<times> trainer \<times> world" where
  "train_batch K batches_per_epoch epoch batch_number s =
     (case for_each (\<lambda>critic_iter. take_critic_step K) (py_range (num_critic_iters (fst s))) s of
        (Some e, s1) \<Rightarrow> (Some e, s1)
      | (None, s1) \<Rightarrow>
          (case trainer_take_generator_step K s1 of
             (Some e, s2) \<Rightarrow> (Some e, s2)
           | (None, s2) \<Rightarrow>
               (let iteration = epoch * batches_per_epoch + batch_number
                in if weight_saving_interval (fst s2) = 0 then (Some ZeroDivisionError, s2)
                   else if iteration mod weight_saving_interval (fst s2) = 0
                     then save_weights K iteration s2
                   else (None, s2))))"

definition train :: "tf_env \<Rightarrow> trainer \<times> world \<Rightarrow> error option \<times> trainer \<times> world" where
  "train K s =
     (if batch_size (fst s) = 0 then (Some ZeroDivisionError, s)
      else
        (let batches_per_epoch = int (num_training_examples (fst s)) div batch_size (fst s)
         in for_each
              (\<lambda>epoch. for_each (\<lambda>batch_number. train_batch K batches_per_epoch epoch batch_number)
                         (py_range batches_per_epoch))
              (py_range (epochs (fst s))) s))"

subsection \<open>A concrete environment for evaluating the model\<close>

text \<open>
  A small instance of \<open>tf_env\<close> on which every definition above computes: each network is
  linear (its output for a row is the sum of its weights times the sum of the row of its
  last input), the two gradients are forward differences (exact for such networks), the
  optimizer rule is a plain gradient step, and the random draws are constants (the
  midpoint of the uniform range; two standard deviations above the normal mean).
\<close>

definition toy_call :: "keras_model \<Rightarrow> store \<Rightarrow> bool \<Rightarrow> tensor list \<Rightarrow> tensor" where
  "toy_call m \<sigma> training inputs =
     map (\<lambda>row. [sum_list (concat (map \<sigma> (trainable_variables m))) * sum_list row]) (last inputs)"

definition toy_gradient_input :: "(tensor \<Rightarrow> tensor) \<Rightarrow> tensor \<Rightarrow> tensor" where
  "toy_gradient_input f y = map (\<lambda>row. map (\<lambda>_. hd (hd (f [[1]])) - hd (hd (f [[0]]))) row) y"

definition toy_gradient_vars :: "(store \<Rightarrow> real) \<Rightarrow> store \<Rightarrow> var list \<Rightarrow> real list list" where
  "toy_gradient_vars L \<sigma> vs = map (\<lambda>v. [L (\<sigma>(v := map (\<lambda>p. p + 1) (\<sigma> v))) - L \<sigma>]) vs"

definition toy_opt_update :: "optimizer \<Rightarrow> var \<Rightarrow> real list \<Rightarrow> real list \<Rightarrow> real list \<times> real list" where
  "toy_opt_update opt v g old = (map2 (\<lambda>p q. p - lr opt * q) old g, g)"

definition toy_data :: "tensor \<times> tensor" where
  "toy_data = ([[1], [2]], [[3], [4]])"

definition toy_env :: tf_env where
  "toy_env =
     \<lparr>call = toy_call,
      tape_gradient_input = toy_gradient_input,
      tape_gradient_vars = toy_gradient_vars,
      opt_update = toy_opt_update,
      initializer = (\<lambda>v. [0]),
      random_uniform = (\<lambda>d minval maxval i j. (minval + maxval) / 2),
      random_normal = (\<lambda>d mean stddev i. mean + 2 * stddev),
      np_permutation = (\<lambda>d n. [0..<n]),
      write_error = (\<lambda>f. None),
      make_save_directory = (\<lambda>name. Inr (''models/'' @ name @ ''/Run_0'')),
      load_jet_data = (\<lambda>path. Inr toy_data),
      load_mnist_data = Inr toy_data,
      concatenate_images_labels = (\<lambda>images labels. map2 (\<lambda>i l. i @ l) images labels)\<rparr>"

definition toy_world :: world where
  "toy_world =
     \<lparr>vars = (\<lambda>v. if v = 0 then [1] else if v = 1 then [2] else [0]),
      next_var = 2, tf_draws = 0, np_draws = 0, files = Map.empty\<rparr>"

definition toy_model :: "model_class \<Rightarrow> cWGAN" where
  "toy_model cls =
     \<lparr>model_class = cls, clip_value = 0.01,
      critic_optimizer = Some (new_optimizer RMSprop 1),
      generator_optimizer = Some (new_optimizer RMSprop 1),
      gp_weight = 10, noise_dims = 1,
      generator = \<lparr>arch = DenseGenerator, trainable_variables = [0]\<rparr>,
      critic = \<lparr>arch = DenseCritic, trainable_variables = [1]\<rparr>\<rparr>"

definition toy_trainer :: trainer where
  "toy_trainer =
     \<lparr>trainer_class = Trainer, save_dir = ''run'', num_critic_iters = 1, batch_size = 1,
      model = toy_model CWGAN, data = toy_data, epochs = 1, num_training_examples = 2,
      weight_saving_interval = 1,
      critic_losses = [], generator_losses = [], wass_estimates = []\<rparr>"

definition toy_params :: "string \<rightharpoonup> pyval" where
  "toy_params = map_of
     [(''num_critic_iters'', PyInt 1), (''batch_size'', PyInt 1), (''gen_lr'', PyFloat 1),
      (''critic_lr'', PyFloat 1), (''clip_value'', PyFloat 0.01), (''optimizer'', PyStr ''RMSprop''),
      (''noise_dims'', PyInt 1), (''gp_weight'', PyFloat 10), (''data_path'', PyStr ''data''),
      (''epochs'', PyInt 1), (''weight_saving_interval'', PyInt 1)]"

definition toy_mnist_trainer :: trainer where
  "toy_mnist_trainer = toy_trainer\<lparr>trainer_class := MNISTTrainer, model := toy_model CWGAN_mnist\<rparr>"

text \<open>The same environment with a file system that refuses every write.\<close>

definition failing_env :: tf_env where
  "failing_env = toy_env\<lparr>write_error := (\<lambda>f. Some OSError)\<rparr>"

subsection \<open>When a trainer can take a step\<close>

text \<open>
  The conditions under which no step of the trainer raises: both optimizers exist, the
  batch fits the data set, the data arrays are as long as \<open>num_training_examples\<close>, and
  NumPy's permutations stay inside \<open>0..n-1\<close>.
\<close>

definition can_train :: "tf_env \<Rightarrow> trainer \<Rightarrow> bool" where
  "can_train K tr \<longleftrightarrow>
     critic_optimizer (model tr) \<noteq> None \<and> generator_optimizer (model tr) \<noteq> None
     \<and> 0 \<le> batch_size tr \<and> batch_size tr \<le> int (num_training_examples tr)
     \<and> num_training_examples tr \<le> length (fst (data tr))
     \<and> num_training_examples tr \<le> length (snd (data tr))
     \<and> (\<forall>d. list_all (\<lambda>i. i < num_training_examples tr)
                (take (nat (batch_size tr)) (np_permutation K d (num_training_examples tr))))"

subsection \<open>What an optimization step is\<close>

text \<open>
  The scalar a step tapes, as a function of the variable values: the \<^verbatim>\<open>with\<close> block of
  the \<open>train_critic\<close> (\<open>train_generator\<close>) method of the model's class, with the noise
  already drawn.
\<close>

definition taped_critic_loss ::
  "tf_env \<Rightarrow> cWGAN \<Rightarrow> tensor \<Rightarrow> tensor \<Rightarrow> tensor \<Rightarrow> world \<Rightarrow> store \<Rightarrow> real" where
  "taped_critic_loss K m x y noise w \<sigma> =
     (case model_class m of
        CWGAN \<Rightarrow> fst (critic_tape K m x y noise (w\<lparr>vars := \<sigma>\<rparr>))
      | CWGAN_mnist \<Rightarrow> mnist_critic_tape K m x y noise (w\<lparr>vars := \<sigma>\<rparr>))"

definition taped_generator_loss ::
  "tf_env \<Rightarrow> cWGAN \<Rightarrow> tensor \<Rightarrow> tensor \<Rightarrow> world \<Rightarrow> store \<Rightarrow> real" where
  "taped_generator_loss K m x noise w \<sigma> =
     (case model_class m of
        CWGAN \<Rightarrow> generator_tape K m x noise (w\<lparr>vars := \<sigma>\<rparr>)
      | CWGAN_mnist \<Rightarrow> mnist_generator_tape K m x noise (w\<lparr>vars := \<sigma>\<rparr>))"

text \<open>
  \<open>critic_step_performed K s s'\<close>: from state \<open>s\<close>, one batch was drawn anew from the data
  set, the critic's optimizer applied to the critic's trainable variables the gradient of
  the taped critic loss on that batch (one more update counted by the optimizer), and the
  loss was appended to \<open>critic_losses\<close>, giving \<open>s'\<close>. Likewise for the generator, whose
  step also appends one Wasserstein estimate.
\<close>

definition critic_step_performed :: "tf_env \<Rightarrow> trainer \<times> world \<Rightarrow> trainer \<times> world \<Rightarrow> bool" where
  "critic_step_performed K s s' \<longleftrightarrow>
     (\<exists>x y ws noise wn opt gv.
        sample_batch_of_data K (fst s) (snd s) = (Inr (x, y), ws)
        \<and> np_draws ws = Suc (np_draws (snd s))
        \<and> tf_random_uniform K (length x) (nat (noise_dims (model (fst s)))) 0 1 ws = (noise, wn)
        \<and> critic_optimizer (model (fst s)) = Some opt
        \<and> gv = zip (tape_gradient_vars K (taped_critic_loss K (model (fst s)) x y noise wn)
                      (vars (snd s)) (trainable_variables (critic (model (fst s)))))
                   (trainable_variables (critic (model (fst s))))
        \<and> fst s' = (fst s)
             \<lparr>model := (model (fst s))
                \<lparr>critic_optimizer := Some (fst (apply_gradients K opt gv (vars (snd s))))\<rparr>,
              critic_losses := critic_losses (fst s) @
                [taped_critic_loss K (model (fst s)) x y noise wn (vars (snd s))]\<rparr>
        \<and> vars (snd s') = snd (apply_gradients K opt gv (vars (snd s)))
        \<and> np_draws (snd s') = Suc (np_draws (snd s))
        \<and> files (snd s') = files (snd s))"

definition generator_step_performed :: "tf_env \<Rightarrow> trainer \<times> world \<Rightarrow> trainer \<times> world \<Rightarrow> bool" where
  "generator_step_performed K s s' \<longleftrightarrow>
     (\<exists>x y ws noise wn opt gv wass_estimate.
        sample_batch_of_data K (fst s) (snd s) = (Inr (x, y), ws)
        \<and> np_draws ws = Suc (np_draws (snd s))
        \<and> tf_random_uniform K (length x) (nat (noise_dims (model (fst s)))) 0 1 ws = (noise, wn)
        \<and> generator_optimizer (model (fst s)) = Some opt
        \<and> gv = zip (tape_gradient_vars K (taped_generator_loss K (model (fst s)) x noise wn)
                      (vars (snd s)) (trainable_variables (generator (model (fst s)))))
                   (trainable_variables (generator (model (fst s))))
        \<and> fst s' = (fst s)
             \<lparr>model := (model (fst s))
                \<lparr>generator_optimizer := Some (fst (apply_gradients K opt gv (vars (snd s))))\<rparr>,
              generator_losses := generator_losses (fst s) @
                [taped_generator_loss K (model (fst s)) x noise wn (vars (snd s))],
              wass_estimates := wass_estimates (fst s) @ [wass_estimate]\<rparr>
        \<and> vars (snd s') = snd (apply_gradients K opt gv (vars (snd s)))
        \<and> np_draws (snd s') = Suc (np_draws (snd s))
        \<and> files (snd s') = files (snd s))"

section \<open>Properties\<close>

subsection \<open>Evaluation and frame lemmas\<close>

lemmas toy_defs = toy_env_def toy_model_def toy_world_def toy_call_def toy_gradient_input_def
  toy_gradient_vars_def toy_opt_update_def toy_data_def toy_trainer_def new_optimizer_def

lemmas tensor_defs = reduce_mean_def tensor_sub_def tensor_add_def scale_rows_def
  tf_random_uniform_def tf_random_normal_def critic_loss_def generator_loss_def grad_norms_def

lemma tf_random_uniform_vars: "vars (snd (tf_random_uniform K b n lo hi w)) = vars w"
  by (simp add: tf_random_uniform_def)

lemma interpolate_data_vars: "vars (snd (interpolate_data K yr yg w)) = vars w"
  by (simp add: interpolate_data_def tf_random_normal_def Let_def)

lemma gradient_penalty_vars: "vars (snd (gradient_penalty K m x yr yg w)) = vars w"
  using interpolate_data_vars [of K yr yg w]
  by (simp add: gradient_penalty_def Let_def split_def)

lemma critic_tape_vars: "vars (snd (critic_tape K m x y noise w)) = vars w"
  by (simp add: critic_tape_def Let_def split_def gradient_penalty_vars)

lemma apply_gradients_frame:
  "v \<notin> snd ` set gvs \<Longrightarrow> snd (apply_gradients K opt gvs \<sigma>) v = \<sigma> v"
  by (induction gvs arbitrary: opt \<sigma>) (auto simp: split_def Let_def)

lemma zip_snd_subset: "v \<notin> set vs \<Longrightarrow> v \<notin> snd ` set (zip gs vs)"
  by (auto dest: set_zip_rightD)

lemma train_critic_frame:
  "v \<notin> set (trainable_variables (critic m)) \<Longrightarrow> vars (snd (snd (train_critic K m x y w))) v = vars w v"
  by (simp add: train_critic_def Let_def split_def critic_tape_vars tf_random_uniform_vars
      apply_gradients_frame zip_snd_subset split: option.splits)

lemma train_generator_frame:
  "v \<notin> set (trainable_variables (generator m)) \<Longrightarrow> vars (snd (snd (train_generator K m x w))) v = vars w v"
  by (simp add: train_generator_def Let_def split_def tf_random_uniform_vars
      apply_gradients_frame zip_snd_subset split: option.splits)

lemma mnist_train_critic_frame:
  "v \<notin> set (trainable_variables (critic m)) \<Longrightarrow> vars (snd (snd (mnist_train_critic K m x y w))) v = vars w v"
  by (simp add: mnist_train_critic_def Let_def split_def tf_random_uniform_vars
      apply_gradients_frame zip_snd_subset split: option.splits)

lemma mnist_train_generator_frame:
  "v \<notin> set (trainable_variables (generator m)) \<Longrightarrow> vars (snd (snd (mnist_train_generator K m x w))) v = vars w v"
  by (simp add: mnist_train_generator_def Let_def split_def tf_random_uniform_vars
      apply_gradients_frame zip_snd_subset split: option.splits)

lemma cWGAN_init_disjoint:
  "cWGAN_init K cls cv nd opt gl cl gw w0 = (m, w1) \<Longrightarrow>
   set (trainable_variables (generator m)) \<inter> set (trainable_variables (critic m)) = {}"
  by (cases cls) (auto simp: cWGAN_init_def build_generator_def build_critic_def new_model_def Let_def split_def)

lemma interp_same:
  "length t = length y \<Longrightarrow> tensor_add (scale_rows t (tensor_sub y y)) y = y"
proof (induction t y rule: list_induct2)
  case Nil
  then show ?case by (simp add: tensor_add_def scale_rows_def tensor_sub_def)
next
  case (Cons ti t row y)
  have "map2 (\<lambda>p q. p + q) (map (\<lambda>p. ti * p) (map2 (\<lambda>p q. p - q) row row)) row = row"
    by (induction row) auto
  with Cons show ?case by (simp add: tensor_add_def scale_rows_def tensor_sub_def)
qed

lemma interp_row:
  "map2 (\<lambda>p q. p + q) (map (\<lambda>p. t * p) (map2 (\<lambda>p q. p - q) g r)) r
     = map2 (\<lambda>r g. t * (g - r) + (r::real)) r g"
  by (induction r arbitrary: g) (auto simp: zip_Cons1 split: list.splits)

lemma interp_formula:
  "length t = length y_real \<Longrightarrow> length y_gen = length y_real \<Longrightarrow>
   tensor_add (scale_rows t (tensor_sub y_gen y_real)) y_real
     = map (\<lambda>i. map2 (\<lambda>r g. (t ! i) * (g - r) + r) (y_real ! i) (y_gen ! i)) [0..<length y_real]"
proof (rule nth_equalityI)
  assume "length t = length y_real" "length y_gen = length y_real"
  then show "length (tensor_add (scale_rows t (tensor_sub y_gen y_real)) y_real)
     = length (map (\<lambda>i. map2 (\<lambda>r g. (t ! i) * (g - r) + r) (y_real ! i) (y_gen ! i)) [0..<length y_real])"
    by (simp add: tensor_add_def scale_rows_def tensor_sub_def)
next
  fix i
  assume len: "length t = length y_real" "length y_gen = length y_real"
    and "i < length (tensor_add (scale_rows t (tensor_sub y_gen y_real)) y_real)"
  then have i: "i < length y_real"
    by (simp add: tensor_add_def scale_rows_def tensor_sub_def)
  have "tensor_add (scale_rows t (tensor_sub y_gen y_real)) y_real ! i
      = map2 (\<lambda>p q. p + q) (map (\<lambda>p. (t ! i) * p) (map2 (\<lambda>p q. p - q) (y_gen ! i) (y_real ! i))) (y_real ! i)"
    using len i by (simp add: tensor_add_def scale_rows_def tensor_sub_def del: map_map)
  also have "\<dots> = map2 (\<lambda>r g. (t ! i) * (g - r) + r) (y_real ! i) (y_gen ! i)"
    by (rule interp_row)
  finally show "tensor_add (scale_rows t (tensor_sub y_gen y_real)) y_real ! i
      = map (\<lambda>i. map2 (\<lambda>r g. (t ! i) * (g - r) + r) (y_real ! i) (y_gen ! i)) [0..<length y_real] ! i"
    using i by simp
qed

lemma train_critic_loss:
  "critic_optimizer m = Some opt \<Longrightarrow>
   tf_random_uniform K (length x) (nat (noise_dims m)) 0 1 w = (noise, w1) \<Longrightarrow>
   predicted_y = call K (generator m) (vars w1) False [x, noise] \<Longrightarrow>
   fst (train_critic K m x y w)
     = Inr (critic_loss (call K (critic m) (vars w1) True [x, y])
                        (call K (critic m) (vars w1) True [x, predicted_y])
            + gp_weight m * fst (gradient_penalty K m x y predicted_y w1))"
  by (simp add: train_critic_def critic_tape_def Let_def split_def)

lemma mnist_train_critic_loss:
  "critic_optimizer m = Some opt \<Longrightarrow>
   tf_random_uniform K (length labels) (nat (noise_dims m)) 0 1 w = (noise, w1) \<Longrightarrow>
   generated = call K (generator m) (vars w1) False [labels, noise] \<Longrightarrow>
   fst (mnist_train_critic K m labels images w)
     = Inr (critic_loss (call K (critic m) (vars w1) True [concatenate_images_labels K images labels])
                        (call K (critic m) (vars w1) True [concatenate_images_labels K generated labels]))"
  by (simp add: mnist_train_critic_def mnist_critic_tape_def Let_def split_def)

text \<open>
  The function of the variable values that each critic step differentiates, and the
  update it applies with the gradient.
\<close>

lemma train_critic_update:
  "critic_optimizer m = Some opt \<Longrightarrow>
   tf_random_uniform K (length x) (nat (noise_dims m)) 0 1 w = (noise, w1) \<Longrightarrow>
   vars (snd (snd (train_critic K m x y w)))
     = snd (apply_gradients K opt
         (zip (tape_gradient_vars K
                 (\<lambda>\<sigma>. critic_loss (call K (critic m) \<sigma> True [x, y])
                                   (call K (critic m) \<sigma> True
                                      [x, call K (generator m) \<sigma> False [x, noise]])
                      + gp_weight m
                        * fst (gradient_penalty K m x y
                                 (call K (generator m) \<sigma> False [x, noise]) (w1\<lparr>vars := \<sigma>\<rparr>)))
                 (vars w1) (trainable_variables (critic m)))
              (trainable_variables (critic m)))
         (vars w1))"
  by (simp add: train_critic_def critic_tape_def Let_def split_def gradient_penalty_vars)

lemma mnist_train_critic_update:
  "critic_optimizer m = Some opt \<Longrightarrow>
   tf_random_uniform K (length labels) (nat (noise_dims m)) 0 1 w = (noise, w1) \<Longrightarrow>
   vars (snd (snd (mnist_train_critic K m labels images w)))
     = snd (apply_gradients K opt
         (zip (tape_gradient_vars K
                 (\<lambda>\<sigma>. critic_loss
                        (call K (critic m) \<sigma> True [concatenate_images_labels K images labels])
                        (call K (critic m) \<sigma> True
                           [concatenate_images_labels K
                              (call K (generator m) \<sigma> False [labels, noise]) labels]))
                 (vars w1) (trainable_variables (critic m)))
              (trainable_variables (critic m)))
         (vars w1))"
  by (simp add: mnist_train_critic_def mnist_critic_tape_def Let_def split_def)

subsection \<open>The critic's objective\<close>

text \<open>
  C1. Claimed: in every critic optimization step, dense or MNIST, the loss whose gradient
  is applied is \<open>critic_loss real_output fake_output\<close> plus \<open>gp_weight\<close> times the
  gradient penalty of the same batch. \<open>cWGAN.train_critic\<close> does this (lemmas
  \<open>train_critic_loss\<close>, \<open>train_critic_update\<close>); the override
  \<open>cWGAN_mnist.train_critic\<close> differentiates the critic loss alone (lemmas
  \<open>mnist_train_critic_loss\<close>, \<open>mnist_train_critic_update\<close>), although the constructor
  it inherits documents \<open>gp_weight\<close> as the weight of the gradient penalty in the loss
  and \<open>MNISTTrainer\<close> passes one. Evaluated on a batch of two examples with
  \<open>gp_weight = 10\<close> and a critic whose input gradient has norm 2 (penalty 1): the
  MNIST step returns the loss \<open>-6\<close>, the critic loss, where critic loss plus weighted
  penalty is 4.
\<close>

theorem mnist_train_critic_omits_gradient_penalty:
  "fst (mnist_train_critic toy_env (toy_model CWGAN_mnist) [[1], [2]] [[3], [4]] toy_world) = Inr (- 6)
   \<and> critic_loss
        (call toy_env (critic (toy_model CWGAN_mnist)) (vars toy_world) True
           [concatenate_images_labels toy_env [[3], [4]] [[1], [2]]])
        (call toy_env (critic (toy_model CWGAN_mnist)) (vars toy_world) True
           [concatenate_images_labels toy_env
              (call toy_env (generator (toy_model CWGAN_mnist)) (vars toy_world) False [[[1], [2]], [[1/2], [1/2]]])
              [[1], [2]]])
      + gp_weight (toy_model CWGAN_mnist)
        * fst (gradient_penalty toy_env (toy_model CWGAN_mnist) [[1], [2]] [[3], [4]]
                 (call toy_env (generator (toy_model CWGAN_mnist)) (vars toy_world) False [[[1], [2]], [[1/2], [1/2]]])
                 (snd (tf_random_uniform toy_env 2 1 0 1 toy_world))) = 4"
  by (simp add: mnist_train_critic_def mnist_critic_tape_def gradient_penalty_def interpolate_data_def
      toy_defs tensor_defs Let_def split_def upt_rec)

subsection \<open>Interpolation and gradient penalty\<close>

text \<open>
  C2. The interpolation uses one draw \<open>t\<close> per example, taken from the normal generator
  as it is (no clipping to the unit interval): row \<open>i\<close> of the result is
  \<open>t\<^sub>i * (y_gen\<^sub>i - y_real\<^sub>i) + y_real\<^sub>i\<close>. When the generated batch equals the real batch
  the interpolated batch is the real batch whatever was drawn, and the penalty is the
  mean over the batch of \<open>(norm - 1)\<^sup>2\<close> for the critic's input gradient at \<open>(x, y_real)\<close>.
\<close>

theorem interpolation_unclipped_and_fixed_on_equal_batches:
  "(length y_gen = length y_real \<longrightarrow>
      fst (interpolate_data K y_real y_gen w)
        = map (\<lambda>i. map2 (\<lambda>r g. random_normal K (tf_draws w) 0 1 i * (g - r) + r) (y_real ! i) (y_gen ! i))
            [0..<length y_real])
   \<and> fst (interpolate_data K y_real y_real w) = y_real
   \<and> fst (gradient_penalty K m x y_real y_real w)
        = reduce_mean [map (\<lambda>g. (sqrt (sum_list (map (\<lambda>p. p\<^sup>2) g)) - 1)\<^sup>2)
            (tape_gradient_input K (\<lambda>yi. call K (critic m) (vars w) True [x, yi]) y_real)]"
proof -
  have same: "fst (interpolate_data K y_real y_real w) = y_real"
    by (simp add: interpolate_data_def tf_random_normal_def Let_def interp_same)
  have formula: "length y_gen = length y_real \<Longrightarrow>
      fst (interpolate_data K y_real y_gen w)
        = map (\<lambda>i. map2 (\<lambda>r g. random_normal K (tf_draws w) 0 1 i * (g - r) + r) (y_real ! i) (y_gen ! i))
            [0..<length y_real]"
    by (simp add: interpolate_data_def tf_random_normal_def Let_def interp_formula)
  have gp: "fst (gradient_penalty K m x y_real y_real w)
        = reduce_mean [map (\<lambda>g. (sqrt (sum_list (map (\<lambda>p. p\<^sup>2) g)) - 1)\<^sup>2)
            (tape_gradient_input K (\<lambda>yi. call K (critic m) (vars w) True [x, yi]) y_real)]"
    using same interpolate_data_vars [of K y_real y_real w]
    by (simp add: gradient_penalty_def Let_def split_def grad_norms_def comp_def)
  from same formula gp show ?thesis by blast
qed

theorem interpolation_witness:
  "fst (interpolate_data toy_env [[3], [4]] [[1], [1]] toy_world) = [[- 1], [- 2]]
   \<and> fst (interpolate_data toy_env [[3], [4]] [[3], [4]] toy_world) = [[3], [4]]
   \<and> fst (gradient_penalty toy_env (toy_model CWGAN) [[1], [2]] [[3], [4]] [[3], [4]] toy_world) = 1"
  using interpolation_unclipped_and_fixed_on_equal_batches
          [of "[[1], [1]]" "[[3], [4]]" toy_env toy_world "toy_model CWGAN" "[[1], [2]]"]
  by (simp add: toy_defs tensor_defs upt_rec)

subsection \<open>The steps of the trainer\<close>

lemma sample_batch_world:
  "sample_batch_of_data K tr w = (r, w1) \<Longrightarrow>
     vars w1 = vars w \<and> files w1 = files w \<and> tf_draws w1 = tf_draws w"
  by (auto simp: sample_batch_of_data_def np_random_choice_def split: if_splits sum.splits)

lemma sample_batch_draw:
  "sample_batch_of_data K tr w = (Inr b, w1) \<Longrightarrow> np_draws w1 = Suc (np_draws w)"
  by (auto simp: sample_batch_of_data_def np_random_choice_def split: if_splits sum.splits)

lemma list_all_mono_len: "list_all (\<lambda>i. i < n) is \<Longrightarrow> n \<le> m \<Longrightarrow> list_all (\<lambda>i. i < (m::nat)) is"
  by (induction "is") auto

lemma sample_batch_ok:
  assumes "can_train K tr"
  shows "\<exists>x y w1. sample_batch_of_data K tr w = (Inr (x, y), w1)"
proof -
  let ?idx = "take (nat (batch_size tr)) (np_permutation K (np_draws w) (num_training_examples tr))"
  from assms have a: "list_all (\<lambda>i. i < num_training_examples tr) ?idx"
    and b: "num_training_examples tr \<le> length (fst (data tr))"
    and c: "num_training_examples tr \<le> length (snd (data tr))"
    and d: "0 \<le> batch_size tr" "batch_size tr \<le> int (num_training_examples tr)"
    by (simp_all add: can_train_def)
  have g1: "list_all (\<lambda>i. i < length (fst (data tr))) ?idx" by (rule list_all_mono_len [OF a b])
  have g2: "list_all (\<lambda>i. i < length (snd (data tr))) ?idx" by (rule list_all_mono_len [OF a c])
  have ch: "np_random_choice K (num_training_examples tr) (batch_size tr) w
      = (Inr ?idx, w\<lparr>np_draws := Suc (np_draws w)\<rparr>)"
    using d by (auto simp: np_random_choice_def)
  show ?thesis
    by (simp add: sample_batch_of_data_def ch gather_def g1 g2)
qed


lemma model_train_critic_world:
  "np_draws (snd (snd (model_train_critic K m x y w))) = np_draws w
   \<and> files (snd (snd (model_train_critic K m x y w))) = files w"
  by (cases "model_class m"; cases "critic_optimizer m")
     (simp_all add: model_train_critic_def train_critic_def mnist_train_critic_def critic_tape_def
        gradient_penalty_def interpolate_data_def tf_random_uniform_def tf_random_normal_def
        Let_def split_def)

lemma model_train_generator_world:
  "np_draws (snd (snd (model_train_generator K m x w))) = np_draws w
   \<and> files (snd (snd (model_train_generator K m x w))) = files w"
  by (cases "model_class m"; cases "generator_optimizer m")
     (simp_all add: model_train_generator_def train_generator_def mnist_train_generator_def
        tf_random_uniform_def Let_def split_def)

lemma model_train_critic_None:
  "critic_optimizer m = None \<Longrightarrow>
     fst (model_train_critic K m x y w) = Inl AttributeError
     \<and> fst (snd (model_train_critic K m x y w)) = m"
  by (cases "model_class m")
     (simp_all add: model_train_critic_def train_critic_def mnist_train_critic_def Let_def split_def)

lemma model_train_critic_Some:
  "critic_optimizer m = Some opt \<Longrightarrow>
     \<exists>v opt'. fst (model_train_critic K m x y w) = Inr v
            \<and> fst (snd (model_train_critic K m x y w)) = m\<lparr>critic_optimizer := Some opt'\<rparr>"
  by (cases "model_class m")
     (auto simp: model_train_critic_def train_critic_def mnist_train_critic_def Let_def split_def)

lemma model_train_generator_None:
  "generator_optimizer m = None \<Longrightarrow>
     fst (model_train_generator K m x w) = Inl AttributeError
     \<and> fst (snd (model_train_generator K m x w)) = m"
  by (cases "model_class m")
     (simp_all add: model_train_generator_def train_generator_def mnist_train_generator_def Let_def split_def)

lemma model_train_generator_Some:
  "generator_optimizer m = Some opt \<Longrightarrow>
     \<exists>v opt'. fst (model_train_generator K m x w) = Inr v
            \<and> fst (snd (model_train_generator K m x w)) = m\<lparr>generator_optimizer := Some opt'\<rparr>"
  by (cases "model_class m")
     (auto simp: model_train_generator_def train_generator_def mnist_train_generator_def Let_def split_def)

lemma make_generator_predictions_world:
  "np_draws (snd (make_generator_predictions K m x w)) = np_draws w
   \<and> files (snd (make_generator_predictions K m x w)) = files w"
  by (simp add: make_generator_predictions_def tf_random_uniform_def Let_def split_def)

text \<open>What a critic step that raised nothing has done.\<close>

lemma take_critic_step_None:
  assumes "take_critic_step K (tr, w) = (None, tr', w')"
  shows "\<exists>v m'. tr' = tr\<lparr>model := m', critic_losses := critic_losses tr @ [v]\<rparr>
           \<and> np_draws w' = Suc (np_draws w) \<and> files w' = files w"
proof -
  from assms obtain x y w1 where s: "sample_batch_of_data K tr w = (Inr (x, y), w1)"
    by (auto simp: take_critic_step_def split: prod.splits sum.splits)
  obtain r m' w2 where t: "model_train_critic K (model tr) x y w1 = (r, m', w2)"
    by (cases "model_train_critic K (model tr) x y w1") auto
  from assms s t obtain v where r: "r = Inr v"
    and tr': "tr' = tr\<lparr>model := m', critic_losses := critic_losses tr @ [v]\<rparr>" and w': "w' = w2"
    by (auto simp: take_critic_step_def split: sum.splits)
  from model_train_critic_world [of K "model tr" x y w1] t
  have "np_draws w2 = np_draws w1" "files w2 = files w1" by simp_all
  with sample_batch_draw [OF s] sample_batch_world [OF s] tr' w' show ?thesis by auto
qed

lemma take_critic_step_ok:
  assumes "can_train K tr"
  shows "\<exists>tr' w'. take_critic_step K (tr, w) = (None, tr', w') \<and> can_train K tr'"
proof -
  from sample_batch_ok [OF assms] obtain x y w1
    where s: "sample_batch_of_data K tr w = (Inr (x, y), w1)" by blast
  from assms obtain opt where o: "critic_optimizer (model tr) = Some opt"
    by (auto simp: can_train_def)
  from model_train_critic_Some [OF o, of K x y w1] obtain v opt'
    where r: "fst (model_train_critic K (model tr) x y w1) = Inr v"
      and m: "fst (snd (model_train_critic K (model tr) x y w1)) = (model tr)\<lparr>critic_optimizer := Some opt'\<rparr>"
    by blast
  obtain w2 where t: "model_train_critic K (model tr) x y w1
      = (Inr v, (model tr)\<lparr>critic_optimizer := Some opt'\<rparr>, w2)"
    using r m by (cases "model_train_critic K (model tr) x y w1") auto
  have "take_critic_step K (tr, w)
      = (None, tr\<lparr>model := (model tr)\<lparr>critic_optimizer := Some opt'\<rparr>,
                   critic_losses := critic_losses tr @ [v]\<rparr>, w2)"
    by (simp add: take_critic_step_def s t)
  moreover have "can_train K (tr\<lparr>model := (model tr)\<lparr>critic_optimizer := Some opt'\<rparr>,
                   critic_losses := critic_losses tr @ [v]\<rparr>)"
    using assms by (simp add: can_train_def)
  ultimately show ?thesis by blast
qed

lemma take_generator_step_sample_error:
  "sample_batch_of_data K tr w = (Inl e, w1) \<Longrightarrow>
     take_generator_step K (tr, w) = (Some e, tr, w1)
     \<and> mnist_take_generator_step K (tr, w) = (Some e, tr, w1)"
  by (simp add: take_generator_step_def mnist_take_generator_step_def)

lemma take_generator_step_train_error:
  "sample_batch_of_data K tr w = (Inr (x, y), w1) \<Longrightarrow>
   model_train_generator K (model tr) x w1 = (Inl e, m', w2) \<Longrightarrow>
     take_generator_step K (tr, w) = (Some e, tr\<lparr>model := m'\<rparr>, w2)
     \<and> mnist_take_generator_step K (tr, w) = (Some e, tr\<lparr>model := m'\<rparr>, w2)"
  by (simp add: take_generator_step_def mnist_take_generator_step_def Let_def)

lemma take_generator_step_eq:
  "sample_batch_of_data K tr w = (Inr (x, y), w1) \<Longrightarrow>
   model_train_generator K (model tr) x w1 = (Inr v, m', w2) \<Longrightarrow>
     take_generator_step K (tr, w) =
       (None,
        tr\<lparr>model := m',
           generator_losses := generator_losses tr @ [v],
           wass_estimates := wass_estimates tr @
             [- critic_loss
                  (call K (critic m') (vars (snd (make_generator_predictions K m' x w2))) False [x, y])
                  (call K (critic m') (vars (snd (make_generator_predictions K m' x w2))) False
                     [x, fst (make_generator_predictions K m' x w2)])]\<rparr>,
        snd (make_generator_predictions K m' x w2))"
  by (simp add: take_generator_step_def Let_def split_def)

lemma mnist_take_generator_step_eq:
  "sample_batch_of_data K tr w = (Inr (labels, images), w1) \<Longrightarrow>
   model_train_generator K (model tr) labels w1 = (Inr v, m', w2) \<Longrightarrow>
     mnist_take_generator_step K (tr, w) =
       (None,
        tr\<lparr>model := m',
           generator_losses := generator_losses tr @ [v],
           wass_estimates := wass_estimates tr @
             [- critic_loss
                  (call K (critic m') (vars (snd (make_generator_predictions K m' labels w2))) False
                     [concatenate_images_labels K images labels])
                  (call K (critic m') (vars (snd (make_generator_predictions K m' labels w2))) False
                     [concatenate_images_labels K
                        (fst (make_generator_predictions K m' labels w2)) labels])]\<rparr>,
        snd (make_generator_predictions K m' labels w2))"
  by (simp add: mnist_take_generator_step_def Let_def split_def)


lemma trainer_take_generator_step_None:
  assumes "trainer_take_generator_step K (tr, w) = (None, tr', w')"
  shows "\<exists>v e m'. tr' = tr\<lparr>model := m', generator_losses := generator_losses tr @ [v],
                             wass_estimates := wass_estimates tr @ [e]\<rparr>
           \<and> np_draws w' = Suc (np_draws w) \<and> files w' = files w"
proof -
  obtain r w1 where s0: "sample_batch_of_data K tr w = (r, w1)"
    by (cases "sample_batch_of_data K tr w") auto
  have step: "take_generator_step K (tr, w) = (None, tr', w')
      \<or> mnist_take_generator_step K (tr, w) = (None, tr', w')"
    using assms by (cases "trainer_class tr") (simp_all add: trainer_take_generator_step_def)
  obtain x y where s: "sample_batch_of_data K tr w = (Inr (x, y), w1)"
  proof (cases r)
    case (Inl e)
    with s0 step take_generator_step_sample_error [of K tr w e w1] show ?thesis by auto
  next
    case (Inr b)
    with s0 that show ?thesis by (cases b) auto
  qed
  obtain q m' w2 where t0: "model_train_generator K (model tr) x w1 = (q, m', w2)"
    by (cases "model_train_generator K (model tr) x w1") auto
  obtain v where t: "model_train_generator K (model tr) x w1 = (Inr v, m', w2)"
  proof (cases q)
    case (Inl e)
    with t0 step take_generator_step_train_error [OF s, of e m' w2] show ?thesis by auto
  next
    case (Inr v)
    with t0 that show ?thesis by auto
  qed
  let ?w3 = "snd (make_generator_predictions K m' x w2)"
  have w3: "np_draws ?w3 = Suc (np_draws w)" "files ?w3 = files w"
    using model_train_generator_world [of K "model tr" x w1] t
      sample_batch_draw [OF s] sample_batch_world [OF s]
      make_generator_predictions_world [of K m' x w2]
    by simp_all
  from step show ?thesis
  proof
    assume "take_generator_step K (tr, w) = (None, tr', w')"
    with take_generator_step_eq [OF s t] w3 show ?thesis by auto
  next
    assume "mnist_take_generator_step K (tr, w) = (None, tr', w')"
    with mnist_take_generator_step_eq [OF s t] w3 show ?thesis by auto
  qed
qed

lemma trainer_take_generator_step_ok:
  assumes "can_train K tr"
  shows "\<exists>tr' w'. trainer_take_generator_step K (tr, w) = (None, tr', w') \<and> can_train K tr'"
proof -
  from sample_batch_ok [OF assms] obtain x y w1
    where s: "sample_batch_of_data K tr w = (Inr (x, y), w1)" by blast
  from assms obtain opt where o: "generator_optimizer (model tr) = Some opt"
    by (auto simp: can_train_def)
  from model_train_generator_Some [OF o, of K x w1] obtain v opt'
    where r: "fst (model_train_generator K (model tr) x w1) = Inr v"
      and m: "fst (snd (model_train_generator K (model tr) x w1)) = (model tr)\<lparr>generator_optimizer := Some opt'\<rparr>"
    by blast
  obtain w2 where t: "model_train_generator K (model tr) x w1
      = (Inr v, (model tr)\<lparr>generator_optimizer := Some opt'\<rparr>, w2)"
    using r m by (cases "model_train_generator K (model tr) x w1") auto
  from assms have c: "\<And>gl we. can_train K (tr\<lparr>model := (model tr)\<lparr>generator_optimizer := Some opt'\<rparr>,
                   generator_losses := gl, wass_estimates := we\<rparr>)"
    by (simp add: can_train_def)
  show ?thesis
  proof (cases "trainer_class tr")
    case Trainer
    then show ?thesis
      using c by (simp add: trainer_take_generator_step_def take_generator_step_eq [OF s t])
  next
    case MNISTTrainer
    then show ?thesis
      using c by (simp add: trainer_take_generator_step_def mnist_take_generator_step_eq [OF s t])
  qed
qed

lemma critic_loop_None:
  "for_each (\<lambda>critic_iter. take_critic_step K) is (tr, w) = (None, tr', w') \<Longrightarrow>
     \<exists>vs m'. length vs = length is
        \<and> tr' = tr\<lparr>model := m', critic_losses := critic_losses tr @ vs\<rparr>
        \<and> np_draws w' = np_draws w + length is \<and> files w' = files w"
proof (induction "is" arbitrary: tr w)
  case Nil
  then have "tr' = tr\<lparr>model := model tr, critic_losses := critic_losses tr @ []\<rparr>"
    and "w' = w" by simp_all
  then show ?case by (intro exI [of _ "[]"] exI [of _ "model tr"]) simp
next
  case (Cons i "is")
  obtain r tr1 w1 where st0: "take_critic_step K (tr, w) = (r, tr1, w1)"
    by (cases "take_critic_step K (tr, w)") auto
  with Cons.prems have r: "r = None" by (cases r) simp_all
  from st0 r have st: "take_critic_step K (tr, w) = (None, tr1, w1)" by simp
  from Cons.prems st have rest:
    "for_each (\<lambda>critic_iter. take_critic_step K) is (tr1, w1) = (None, tr', w')" by simp
  from take_critic_step_None [OF st] obtain v m1 where
    tr1: "tr1 = tr\<lparr>model := m1, critic_losses := critic_losses tr @ [v]\<rparr>"
    and w1: "np_draws w1 = Suc (np_draws w)" "files w1 = files w" by blast
  from Cons.IH [OF rest] obtain vs m' where
    l: "length vs = length is"
    and tr': "tr' = tr1\<lparr>model := m', critic_losses := critic_losses tr1 @ vs\<rparr>"
    and w': "np_draws w' = np_draws w1 + length is" "files w' = files w1" by blast
  have "length (v # vs) = length (i # is)" using l by simp
  moreover have "tr' = tr\<lparr>model := m', critic_losses := critic_losses tr @ (v # vs)\<rparr>"
    using tr' tr1 by simp
  moreover have "np_draws w' = np_draws w + length (i # is)" "files w' = files w"
    using w' w1 by simp_all
  ultimately show ?case by blast
qed

lemma critic_loop_ok:
  "can_train K tr \<Longrightarrow>
     \<exists>tr' w'. for_each (\<lambda>critic_iter. take_critic_step K) is (tr, w) = (None, tr', w')
               \<and> can_train K tr'"
proof (induction "is" arbitrary: tr w)
  case Nil
  then show ?case by simp
next
  case (Cons i "is")
  from take_critic_step_ok [OF Cons.prems, of w] obtain tr1 w1 where
    st: "take_critic_step K (tr, w) = (None, tr1, w1)" and c: "can_train K tr1" by blast
  from Cons.IH [OF c, of w1] st show ?case by simp
qed

lemma save_weights_result:
  "save_weights K iteration (tr, w) =
     (case write_error K (gen_filename (save_dir tr) iteration) of
        Some e \<Rightarrow> (Some e, tr, w)
      | None \<Rightarrow> (None, tr,
          w\<lparr>files := (files w)(gen_filename (save_dir tr) iteration
                \<mapsto> map (vars w) (trainable_variables (generator (model tr))))\<rparr>))"
  by (simp add: save_weights_def)

lemma critic_loop_config:
  "tr' = tr\<lparr>model := m', critic_losses := cl\<rparr> \<Longrightarrow>
     num_critic_iters tr' = num_critic_iters tr \<and> weight_saving_interval tr' = weight_saving_interval tr
     \<and> save_dir tr' = save_dir tr \<and> generator_losses tr' = generator_losses tr
     \<and> wass_estimates tr' = wass_estimates tr"
  by simp

text \<open>One pass of the loop over \<open>batch_number\<close> that raised nothing.\<close>

lemma train_batch_None:
  assumes run: "train_batch K bpe epoch batch_number (tr, w) = (None, tr', w')"
  shows "length (critic_losses tr') = length (critic_losses tr) + nat (num_critic_iters tr)
       \<and> length (generator_losses tr') = length (generator_losses tr) + 1
       \<and> length (wass_estimates tr') = length (wass_estimates tr) + 1
       \<and> np_draws w' = np_draws w + nat (num_critic_iters tr) + 1
       \<and> save_dir tr' = save_dir tr
       \<and> weight_saving_interval tr \<noteq> 0
       \<and> ((epoch * bpe + batch_number) mod weight_saving_interval tr = 0 \<longrightarrow>
            files w' (gen_filename (save_dir tr) (epoch * bpe + batch_number))
              = Some (map (vars w') (trainable_variables (generator (model tr')))))
       \<and> ((epoch * bpe + batch_number) mod weight_saving_interval tr \<noteq> 0 \<longrightarrow> files w' = files w)"
proof -
  obtain r1 tr1 w1 where c0:
    "for_each (\<lambda>critic_iter. take_critic_step K) (py_range (num_critic_iters tr)) (tr, w) = (r1, tr1, w1)"
    by (cases "for_each (\<lambda>critic_iter. take_critic_step K) (py_range (num_critic_iters tr)) (tr, w)") auto
  with run have r1: "r1 = None" by (cases r1) (simp_all add: train_batch_def)
  note c = c0 [unfolded r1]
  obtain r2 tr2 w2 where g0: "trainer_take_generator_step K (tr1, w1) = (r2, tr2, w2)"
    by (cases "trainer_take_generator_step K (tr1, w1)") auto
  with run c have r2: "r2 = None" by (cases r2) (simp_all add: train_batch_def)
  note g = g0 [unfolded r2]
  let ?it = "epoch * bpe + batch_number"
  have unfolded: "train_batch K bpe epoch batch_number (tr, w) =
     (if weight_saving_interval tr2 = 0 then (Some ZeroDivisionError, tr2, w2)
      else if ?it mod weight_saving_interval tr2 = 0 then save_weights K ?it (tr2, w2)
      else (None, tr2, w2))"
    by (simp add: train_batch_def Let_def c g)
  have tail:
    "(if weight_saving_interval tr2 = 0 then (Some ZeroDivisionError, tr2, w2)
      else if ?it mod weight_saving_interval tr2 = 0 then save_weights K ?it (tr2, w2)
      else (None, tr2, w2)) = (None, tr', w')"
    by (rule trans [OF sym [OF unfolded] run])
  from critic_loop_None [OF c] obtain vs m1 where
    l: "length vs = length (py_range (num_critic_iters tr))"
    and tr1: "tr1 = tr\<lparr>model := m1, critic_losses := critic_losses tr @ vs\<rparr>"
    and w1: "np_draws w1 = np_draws w + length (py_range (num_critic_iters tr))" "files w1 = files w"
    by blast
  from trainer_take_generator_step_None [OF g] obtain v e m2 where
    tr2: "tr2 = tr1\<lparr>model := m2, generator_losses := generator_losses tr1 @ [v],
                     wass_estimates := wass_estimates tr1 @ [e]\<rparr>"
    and w2: "np_draws w2 = Suc (np_draws w1)" "files w2 = files w1" by blast
  have n: "length (py_range (num_critic_iters tr)) = nat (num_critic_iters tr)"
    by (simp add: py_range_def)
  have cfg: "weight_saving_interval tr2 = weight_saving_interval tr" "save_dir tr2 = save_dir tr"
    using tr1 tr2 by simp_all
  have cnt: "length (critic_losses tr2) = length (critic_losses tr) + nat (num_critic_iters tr)"
    "length (generator_losses tr2) = length (generator_losses tr) + 1"
    "length (wass_estimates tr2) = length (wass_estimates tr) + 1"
    using tr1 tr2 l n by simp_all
  have drw: "np_draws w2 = np_draws w + nat (num_critic_iters tr) + 1" "files w2 = files w"
    using w1 w2 n by simp_all
  from tail cfg have nz: "weight_saving_interval tr \<noteq> 0" by (auto split: if_splits)
  show ?thesis
  proof (cases "?it mod weight_saving_interval tr = 0")
    case True
    with tail cfg nz have sv: "save_weights K ?it (tr2, w2) = (None, tr', w')" by simp
    then have "tr' = tr2"
      and "w' = w2\<lparr>files := (files w2)(gen_filename (save_dir tr2) ?it
                \<mapsto> map (vars w2) (trainable_variables (generator (model tr2))))\<rparr>"
      by (auto simp: save_weights_result split: option.splits)
    with cnt drw cfg nz True show ?thesis by simp
  next
    case False
    with tail cfg nz have "tr' = tr2" "w' = w2" by simp_all
    with cnt drw cfg nz False show ?thesis by simp
  qed
qed

lemma train_batch_ok:
  assumes ct: "can_train K tr"
    and nz: "weight_saving_interval tr \<noteq> 0"
    and wr: "(epoch * bpe + batch_number) mod weight_saving_interval tr = 0 \<Longrightarrow>
               write_error K (gen_filename (save_dir tr) (epoch * bpe + batch_number)) = None"
  shows "\<exists>tr' w'. train_batch K bpe epoch batch_number (tr, w) = (None, tr', w')"
proof -
  let ?it = "epoch * bpe + batch_number"
  from critic_loop_ok [OF ct, of "py_range (num_critic_iters tr)" w] obtain tr1 w1 where
    c: "for_each (\<lambda>critic_iter. take_critic_step K) (py_range (num_critic_iters tr)) (tr, w) = (None, tr1, w1)"
    and ct1: "can_train K tr1" by blast
  from trainer_take_generator_step_ok [OF ct1, of w1] obtain tr2 w2 where
    g: "trainer_take_generator_step K (tr1, w1) = (None, tr2, w2)" by blast
  from critic_loop_None [OF c] obtain vs m1 where
    tr1: "tr1 = tr\<lparr>model := m1, critic_losses := critic_losses tr @ vs\<rparr>" by blast
  from trainer_take_generator_step_None [OF g] obtain v e m2 where
    tr2: "tr2 = tr1\<lparr>model := m2, generator_losses := generator_losses tr1 @ [v],
                     wass_estimates := wass_estimates tr1 @ [e]\<rparr>" by blast
  have cfg: "weight_saving_interval tr2 = weight_saving_interval tr" "save_dir tr2 = save_dir tr"
    using tr1 tr2 by simp_all
  have unfolded: "train_batch K bpe epoch batch_number (tr, w) =
     (if weight_saving_interval tr2 = 0 then (Some ZeroDivisionError, tr2, w2)
      else if ?it mod weight_saving_interval tr2 = 0 then save_weights K ?it (tr2, w2)
      else (None, tr2, w2))"
    by (simp add: train_batch_def Let_def c g)
  show ?thesis
  proof (cases "?it mod weight_saving_interval tr = 0")
    case True
    with wr have "write_error K (gen_filename (save_dir tr2) ?it) = None" by (simp add: cfg)
    with unfolded True nz cfg show ?thesis by (simp add: save_weights_result)
  next
    case False
    with unfolded nz cfg show ?thesis by simp
  qed
qed

lemma can_train_toy: "can_train toy_env toy_trainer"
  by (simp add: can_train_def toy_defs list_all_iff)

lemma gen_filename_toy: "gen_filename ''run'' 0 = ''run/training_checkpoints/gen_0''"
  by (simp add: gen_filename_def os_path_join_def str_int_def str_nat.simps digit_char_def)

subsection \<open>Steps performed\<close>

lemma apply_gradients_iterations:
  "iterations (fst (apply_gradients K opt gvs \<sigma>)) = Suc (iterations opt)"
  by (induction gvs arbitrary: opt \<sigma>) (auto simp: split_def Let_def)

lemma tf_random_uniform_world:
  "tf_random_uniform K b n lo hi w = (noise, wn) \<Longrightarrow>
     vars wn = vars w \<and> np_draws wn = np_draws w \<and> files wn = files w"
  by (auto simp: tf_random_uniform_def)

lemma world_vars_same: "vars w = \<sigma> \<Longrightarrow> w\<lparr>vars := \<sigma>\<rparr> = w"
  by auto

lemma model_train_critic_performs:
  assumes o: "critic_optimizer m = Some opt"
    and u: "tf_random_uniform K (length x) (nat (noise_dims m)) 0 1 w = (noise, wn)"
    and gv: "gv = zip (tape_gradient_vars K (taped_critic_loss K m x y noise wn) (vars w)
                        (trainable_variables (critic m)))
                      (trainable_variables (critic m))"
  shows "fst (model_train_critic K m x y w) = Inr (taped_critic_loss K m x y noise wn (vars w))
       \<and> fst (snd (model_train_critic K m x y w))
           = m\<lparr>critic_optimizer := Some (fst (apply_gradients K opt gv (vars w)))\<rparr>
       \<and> vars (snd (snd (model_train_critic K m x y w))) = snd (apply_gradients K opt gv (vars w))"
proof -
  from tf_random_uniform_world [OF u] have v: "vars wn = vars w" by simp
  then have same: "wn\<lparr>vars := vars w\<rparr> = wn" by (simp add: world_vars_same)
  show ?thesis
  proof (cases "model_class m")
    case CWGAN
    have f: "taped_critic_loss K m x y noise wn = (\<lambda>\<sigma>. fst (critic_tape K m x y noise (wn\<lparr>vars := \<sigma>\<rparr>)))"
      by (rule ext) (simp add: taped_critic_loss_def CWGAN)
    show ?thesis
      unfolding gv f
      by (simp add: model_train_critic_def CWGAN train_critic_def o u Let_def split_def
          critic_tape_vars v same)
  next
    case CWGAN_mnist
    have f: "taped_critic_loss K m x y noise wn = (\<lambda>\<sigma>. mnist_critic_tape K m x y noise (wn\<lparr>vars := \<sigma>\<rparr>))"
      by (rule ext) (simp add: taped_critic_loss_def CWGAN_mnist)
    show ?thesis
      unfolding gv f
      by (simp add: model_train_critic_def CWGAN_mnist mnist_train_critic_def o u Let_def split_def
          v same)
  qed
qed

lemma model_train_generator_performs:
  assumes o: "generator_optimizer m = Some opt"
    and u: "tf_random_uniform K (length x) (nat (noise_dims m)) 0 1 w = (noise, wn)"
    and gv: "gv = zip (tape_gradient_vars K (taped_generator_loss K m x noise wn) (vars w)
                        (trainable_variables (generator m)))
                      (trainable_variables (generator m))"
  shows "fst (model_train_generator K m x w) = Inr (taped_generator_loss K m x noise wn (vars w))
       \<and> fst (snd (model_train_generator K m x w))
           = m\<lparr>generator_optimizer := Some (fst (apply_gradients K opt gv (vars w)))\<rparr>
       \<and> vars (snd (snd (model_train_generator K m x w))) = snd (apply_gradients K opt gv (vars w))"
proof -
  from tf_random_uniform_world [OF u] have v: "vars wn = vars w" by simp
  then have same: "wn\<lparr>vars := vars w\<rparr> = wn" by (simp add: world_vars_same)
  show ?thesis
  proof (cases "model_class m")
    case CWGAN
    have f: "taped_generator_loss K m x noise wn = (\<lambda>\<sigma>. generator_tape K m x noise (wn\<lparr>vars := \<sigma>\<rparr>))"
      by (rule ext) (simp add: taped_generator_loss_def CWGAN)
    show ?thesis
      unfolding gv f
      by (simp add: model_train_generator_def CWGAN train_generator_def o u Let_def split_def v same)
  next
    case CWGAN_mnist
    have f: "taped_generator_loss K m x noise wn = (\<lambda>\<sigma>. mnist_generator_tape K m x noise (wn\<lparr>vars := \<sigma>\<rparr>))"
      by (rule ext) (simp add: taped_generator_loss_def CWGAN_mnist)
    show ?thesis
      unfolding gv f
      by (simp add: model_train_generator_def CWGAN_mnist mnist_train_generator_def o u Let_def
          split_def v same)
  qed
qed

lemma take_critic_step_performs:
  assumes run: "take_critic_step K s = (None, s')"
  shows "critic_step_performed K s s'"
proof -
  obtain tr w where s: "s = (tr, w)" by (cases s)
  obtain tr' w' where s': "s' = (tr', w')" by (cases s')
  from run s s' have run': "take_critic_step K (tr, w) = (None, tr', w')" by simp
  from run' obtain x y ws where sm: "sample_batch_of_data K tr w = (Inr (x, y), ws)"
    by (auto simp: take_critic_step_def split: prod.splits sum.splits)
  obtain r m' w2 where t: "model_train_critic K (model tr) x y ws = (r, m', w2)"
    by (cases "model_train_critic K (model tr) x y ws") auto
  from run' sm t obtain v where r: "r = Inr v"
    and tr': "tr' = tr\<lparr>model := m', critic_losses := critic_losses tr @ [v]\<rparr>" and w': "w' = w2"
    by (auto simp: take_critic_step_def split: sum.splits)
  obtain opt where o: "critic_optimizer (model tr) = Some opt"
  proof (cases "critic_optimizer (model tr)")
    case None
    from model_train_critic_None [OF None, of K x y ws] t r show ?thesis by simp
  next
    case (Some opt)
    with that show ?thesis by simp
  qed
  obtain noise wn where u:
    "tf_random_uniform K (length x) (nat (noise_dims (model tr))) 0 1 ws = (noise, wn)"
    by (cases "tf_random_uniform K (length x) (nat (noise_dims (model tr))) 0 1 ws") auto
  define gv where "gv = zip (tape_gradient_vars K (taped_critic_loss K (model tr) x y noise wn)
                      (vars ws) (trainable_variables (critic (model tr))))
                   (trainable_variables (critic (model tr)))"
  note p = model_train_critic_performs [OF o u gv_def]
  have vw: "vars ws = vars w" "files ws = files w" using sample_batch_world [OF sm] by simp_all
  have dr: "np_draws ws = Suc (np_draws w)" by (rule sample_batch_draw [OF sm])
  from p t r have v: "v = taped_critic_loss K (model tr) x y noise wn (vars w)"
    and m': "m' = (model tr)\<lparr>critic_optimizer := Some (fst (apply_gradients K opt gv (vars w)))\<rparr>"
    and v2: "vars w2 = snd (apply_gradients K opt gv (vars w))"
    by (simp_all add: vw)
  from model_train_critic_world [of K "model tr" x y ws] t
  have w2: "np_draws w2 = np_draws ws" "files w2 = files ws" by simp_all
  show ?thesis
    unfolding critic_step_performed_def s s'
    apply (rule exI [of _ x], rule exI [of _ y], rule exI [of _ ws], rule exI [of _ noise],
           rule exI [of _ wn], rule exI [of _ opt], rule exI [of _ gv])
    using sm dr u o gv_def tr' w' v m' v2 w2 vw by simp
qed

lemma trainer_take_generator_step_performs:
  assumes run: "trainer_take_generator_step K s = (None, s')"
  shows "generator_step_performed K s s'"
proof -
  obtain tr w where s: "s = (tr, w)" by (cases s)
  obtain tr' w' where s': "s' = (tr', w')" by (cases s')
  from run s s' have run': "trainer_take_generator_step K (tr, w) = (None, tr', w')" by simp
  have step: "take_generator_step K (tr, w) = (None, tr', w')
      \<or> mnist_take_generator_step K (tr, w) = (None, tr', w')"
    using run' by (cases "trainer_class tr") (simp_all add: trainer_take_generator_step_def)
  obtain r0 ws where s0: "sample_batch_of_data K tr w = (r0, ws)"
    by (cases "sample_batch_of_data K tr w") auto
  obtain x y where sm: "sample_batch_of_data K tr w = (Inr (x, y), ws)"
  proof (cases r0)
    case (Inl e)
    with s0 step take_generator_step_sample_error [of K tr w e ws] show ?thesis by auto
  next
    case (Inr b)
    with s0 that show ?thesis by (cases b) auto
  qed
  obtain q m' w2 where t0: "model_train_generator K (model tr) x ws = (q, m', w2)"
    by (cases "model_train_generator K (model tr) x ws") auto
  obtain v where t: "model_train_generator K (model tr) x ws = (Inr v, m', w2)"
  proof (cases q)
    case (Inl e)
    with t0 step take_generator_step_train_error [OF sm, of e m' w2] show ?thesis by auto
  next
    case (Inr v)
    with t0 that show ?thesis by auto
  qed
  obtain opt where o: "generator_optimizer (model tr) = Some opt"
  proof (cases "generator_optimizer (model tr)")
    case None
    from model_train_generator_None [OF None, of K x ws] t show ?thesis by simp
  next
    case (Some opt)
    with that show ?thesis by simp
  qed
  obtain noise wn where u:
    "tf_random_uniform K (length x) (nat (noise_dims (model tr))) 0 1 ws = (noise, wn)"
    by (cases "tf_random_uniform K (length x) (nat (noise_dims (model tr))) 0 1 ws") auto
  define gv where "gv = zip (tape_gradient_vars K (taped_generator_loss K (model tr) x noise wn)
                      (vars ws) (trainable_variables (generator (model tr))))
                   (trainable_variables (generator (model tr)))"
  note p = model_train_generator_performs [OF o u gv_def]
  have vw: "vars ws = vars w" "files ws = files w" using sample_batch_world [OF sm] by simp_all
  have dr: "np_draws ws = Suc (np_draws w)" by (rule sample_batch_draw [OF sm])
  from p t have v: "v = taped_generator_loss K (model tr) x noise wn (vars w)"
    and m': "m' = (model tr)\<lparr>generator_optimizer := Some (fst (apply_gradients K opt gv (vars w)))\<rparr>"
    and v2: "vars w2 = snd (apply_gradients K opt gv (vars w))"
    by (simp_all add: vw)
  let ?w3 = "snd (make_generator_predictions K m' x w2)"
  have w3: "np_draws ?w3 = Suc (np_draws w)" "files ?w3 = files w" "vars ?w3 = vars w2"
    using model_train_generator_world [of K "model tr" x ws] t dr vw
      make_generator_predictions_world [of K m' x w2]
    by (simp_all add: make_generator_predictions_def tf_random_uniform_def Let_def split_def)
  have "\<exists>e. tr' = tr\<lparr>model := m', generator_losses := generator_losses tr @ [v],
                wass_estimates := wass_estimates tr @ [e]\<rparr> \<and> w' = ?w3"
    using step
  proof
    assume a: "take_generator_step K (tr, w) = (None, tr', w')"
    from take_generator_step_eq [OF sm t] a
    have "tr' = tr\<lparr>model := m',
           generator_losses := generator_losses tr @ [v],
           wass_estimates := wass_estimates tr @
             [- critic_loss
                  (call K (critic m') (vars ?w3) False [x, y])
                  (call K (critic m') (vars ?w3) False
                     [x, fst (make_generator_predictions K m' x w2)])]\<rparr>" and "w' = ?w3"
      by simp_all
    then show ?thesis by blast
  next
    assume a: "mnist_take_generator_step K (tr, w) = (None, tr', w')"
    from mnist_take_generator_step_eq [OF sm t] a
    have "tr' = tr\<lparr>model := m',
           generator_losses := generator_losses tr @ [v],
           wass_estimates := wass_estimates tr @
             [- critic_loss
                  (call K (critic m') (vars ?w3) False
                     [concatenate_images_labels K y x])
                  (call K (critic m') (vars ?w3) False
                     [concatenate_images_labels K
                        (fst (make_generator_predictions K m' x w2)) x])]\<rparr>" and "w' = ?w3"
      by simp_all
    then show ?thesis by blast
  qed
  then obtain e where fin:
    "tr' = tr\<lparr>model := m', generator_losses := generator_losses tr @ [v],
                wass_estimates := wass_estimates tr @ [e]\<rparr>" "w' = ?w3" by blast
  show ?thesis
    unfolding generator_step_performed_def s s'
    apply (rule exI [of _ x], rule exI [of _ y], rule exI [of _ ws], rule exI [of _ noise],
           rule exI [of _ wn], rule exI [of _ opt], rule exI [of _ gv], rule exI [of _ e])
    using sm dr u o gv_def fin v m' v2 w3 vw by simp
qed

text \<open>The critic loop as a chain of states, one critic step from each to the next.\<close>

lemma critic_loop_chain:
  "for_each (\<lambda>critic_iter. take_critic_step K) is s = (None, s') \<Longrightarrow>
     \<exists>ss. length ss = length is + 1 \<and> ss ! 0 = s \<and> ss ! length is = s'
        \<and> (\<forall>i < length is. critic_step_performed K (ss ! i) (ss ! Suc i))"
proof (induction "is" arbitrary: s)
  case Nil
  then show ?case by (intro exI [of _ "[s]"]) simp
next
  case (Cons j "is")
  obtain r s1 where st0: "take_critic_step K s = (r, s1)"
    by (cases "take_critic_step K s") auto
  with Cons.prems have r: "r = None" by (cases r) simp_all
  from st0 r have st: "take_critic_step K s = (None, s1)" by simp
  from Cons.prems st have rest:
    "for_each (\<lambda>critic_iter. take_critic_step K) is s1 = (None, s')" by simp
  from Cons.IH [OF rest] obtain ss where
    l: "length ss = length is + 1" and h: "ss ! 0 = s1" and e: "ss ! length is = s'"
    and c: "\<forall>i < length is. critic_step_performed K (ss ! i) (ss ! Suc i)" by blast
  have first: "critic_step_performed K s s1" by (rule take_critic_step_performs [OF st])
  have "\<forall>i < length (j # is). critic_step_performed K ((s # ss) ! i) ((s # ss) ! Suc i)"
  proof (intro allI impI)
    fix i assume i: "i < length (j # is)"
    show "critic_step_performed K ((s # ss) ! i) ((s # ss) ! Suc i)"
    proof (cases i)
      case 0
      with first h show ?thesis by simp
    next
      case (Suc k)
      with i c show ?thesis by simp
    qed
  qed
  with l e show ?case by (intro exI [of _ "s # ss"]) simp
qed

lemma critic_step_optimizers:
  assumes "critic_step_performed K s s'"
  shows "\<exists>opt opt'. critic_optimizer (model (fst s)) = Some opt
           \<and> critic_optimizer (model (fst s')) = Some opt'
           \<and> iterations opt' = Suc (iterations opt)
           \<and> generator_optimizer (model (fst s')) = generator_optimizer (model (fst s))"
proof -
  from assms obtain opt gv cl where
    o: "critic_optimizer (model (fst s)) = Some opt"
    and f: "fst s' = (fst s)\<lparr>model := (model (fst s))
                \<lparr>critic_optimizer := Some (fst (apply_gradients K opt gv (vars (snd s))))\<rparr>,
              critic_losses := cl\<rparr>"
    unfolding critic_step_performed_def by blast
  from o f show ?thesis by (simp add: apply_gradients_iterations)
qed

lemma generator_step_optimizers:
  assumes "generator_step_performed K s s'"
  shows "\<exists>opt opt'. generator_optimizer (model (fst s)) = Some opt
           \<and> generator_optimizer (model (fst s')) = Some opt'
           \<and> iterations opt' = Suc (iterations opt)
           \<and> critic_optimizer (model (fst s')) = critic_optimizer (model (fst s))"
proof -
  from assms obtain opt gv gl we where
    o: "generator_optimizer (model (fst s)) = Some opt"
    and f: "fst s' = (fst s)\<lparr>model := (model (fst s))
                \<lparr>generator_optimizer := Some (fst (apply_gradients K opt gv (vars (snd s))))\<rparr>,
              generator_losses := gl, wass_estimates := we\<rparr>"
    unfolding generator_step_performed_def by blast
  from o f show ?thesis by (simp add: apply_gradients_iterations)
qed

lemma critic_chain_optimizers:
  "length ss = n + 1 \<Longrightarrow> (\<forall>i < n. critic_step_performed K (ss ! i) (ss ! Suc i)) \<Longrightarrow>
     map_option iterations (critic_optimizer (model (fst (ss ! n))))
       = map_option (\<lambda>k. k + n) (map_option iterations (critic_optimizer (model (fst (ss ! 0)))))
     \<and> generator_optimizer (model (fst (ss ! n))) = generator_optimizer (model (fst (ss ! 0)))"
proof (induction n arbitrary: ss)
  case 0
  then show ?case by (simp add: option.map_ident)
next
  case (Suc n)
  from Suc.prems obtain s0 rest where ss: "ss = s0 # rest" by (cases ss) auto
  from Suc.prems ss have l: "length rest = n + 1" by simp
  from Suc.prems(2) ss have c: "\<forall>i < n. critic_step_performed K (rest ! i) (rest ! Suc i)"
    by auto
  from Suc.prems(2) ss have first: "critic_step_performed K s0 (rest ! 0)"
    by (auto dest: spec [of _ 0])
  from critic_step_optimizers [OF first] obtain opt opt' where
    o: "critic_optimizer (model (fst s0)) = Some opt"
    "critic_optimizer (model (fst (rest ! 0))) = Some opt'"
    "iterations opt' = Suc (iterations opt)"
    "generator_optimizer (model (fst (rest ! 0))) = generator_optimizer (model (fst s0))"
    by blast
  from Suc.IH [OF l c] o ss show ?case by (simp add: option.map_comp comp_def)
qed

lemma train_batch_decompose:
  assumes run: "train_batch K bpe epoch batch_number s = (None, s')"
  shows "\<exists>s1 s2.
      for_each (\<lambda>critic_iter. take_critic_step K) (py_range (num_critic_iters (fst s))) s = (None, s1)
      \<and> trainer_take_generator_step K s1 = (None, s2)
      \<and> fst s' = fst s2 \<and> vars (snd s') = vars (snd s2)"
proof -
  obtain r1 s1 where c0:
    "for_each (\<lambda>critic_iter. take_critic_step K) (py_range (num_critic_iters (fst s))) s = (r1, s1)"
    by (cases "for_each (\<lambda>critic_iter. take_critic_step K) (py_range (num_critic_iters (fst s))) s") auto
  with run have r1: "r1 = None" by (cases r1) (simp_all add: train_batch_def)
  note c = c0 [unfolded r1]
  obtain r2 tr2 w2 where g0: "trainer_take_generator_step K s1 = (r2, tr2, w2)"
    by (cases "trainer_take_generator_step K s1") auto
  with run c have r2: "r2 = None" by (cases r2) (simp_all add: train_batch_def)
  note g = g0 [unfolded r2]
  let ?it = "epoch * bpe + batch_number"
  have unfolded: "train_batch K bpe epoch batch_number s =
     (if weight_saving_interval tr2 = 0 then (Some ZeroDivisionError, tr2, w2)
      else if ?it mod weight_saving_interval tr2 = 0 then save_weights K ?it (tr2, w2)
      else (None, tr2, w2))"
    by (simp add: train_batch_def Let_def c g)
  have tail:
    "(if weight_saving_interval tr2 = 0 then (Some ZeroDivisionError, tr2, w2)
      else if ?it mod weight_saving_interval tr2 = 0 then save_weights K ?it (tr2, w2)
      else (None, tr2, w2)) = (None, s')"
    by (rule trans [OF sym [OF unfolded] run])
  have "fst s' = tr2 \<and> vars (snd s') = vars w2"
  proof (cases "?it mod weight_saving_interval tr2 = 0")
    case True
    with tail have "save_weights K ?it (tr2, w2) = (None, s')" by (auto split: if_splits)
    then show ?thesis by (auto simp: save_weights_result split: option.splits)
  next
    case False
    with tail show ?thesis by (auto split: if_splits)
  qed
  with c g show ?thesis by auto
qed

text \<open>An iteration that raised nothing, as steps: critic steps in a row, then a generator step.\<close>

lemma train_batch_steps:
  assumes run: "train_batch K bpe epoch batch_number (tr, w) = (None, tr', w')"
  shows "\<exists>ss s2. length ss = nat (num_critic_iters tr) + 1 \<and> ss ! 0 = (tr, w)
      \<and> (\<forall>i < nat (num_critic_iters tr). critic_step_performed K (ss ! i) (ss ! Suc i))
      \<and> generator_step_performed K (ss ! nat (num_critic_iters tr)) s2
      \<and> tr' = fst s2 \<and> vars w' = vars (snd s2)"
proof -
  from train_batch_decompose [OF run] obtain s1 s2 where
    c: "for_each (\<lambda>critic_iter. take_critic_step K) (py_range (num_critic_iters tr)) (tr, w) = (None, s1)"
    and g: "trainer_take_generator_step K s1 = (None, s2)"
    and e: "tr' = fst s2" "vars w' = vars (snd s2)" by auto
  have n: "length (py_range (num_critic_iters tr)) = nat (num_critic_iters tr)"
    by (simp add: py_range_def)
  from critic_loop_chain [OF c] n obtain ss where
    "length ss = nat (num_critic_iters tr) + 1" "ss ! 0 = (tr, w)"
    "ss ! nat (num_critic_iters tr) = s1"
    "\<forall>i < nat (num_critic_iters tr). critic_step_performed K (ss ! i) (ss ! Suc i)"
    by auto
  with trainer_take_generator_step_performs [OF g] e show ?thesis by blast
qed

lemma train_batch_optimizers:
  assumes run: "train_batch K bpe epoch batch_number (tr, w) = (None, tr', w')"
  shows "map_option iterations (critic_optimizer (model tr'))
       = map_option (\<lambda>k. k + nat (num_critic_iters tr))
           (map_option iterations (critic_optimizer (model tr)))
     \<and> (\<exists>g g'. generator_optimizer (model tr) = Some g \<and> generator_optimizer (model tr') = Some g'
                 \<and> iterations g' = Suc (iterations g))"
proof -
  from train_batch_steps [OF run] obtain ss s2 where
    l: "length ss = nat (num_critic_iters tr) + 1" and h: "ss ! 0 = (tr, w)"
    and c: "\<forall>i < nat (num_critic_iters tr). critic_step_performed K (ss ! i) (ss ! Suc i)"
    and g: "generator_step_performed K (ss ! nat (num_critic_iters tr)) s2"
    and e: "tr' = fst s2" by blast
  from critic_chain_optimizers [OF l c] h generator_step_optimizers [OF g] e
  show ?thesis by auto
qed

subsection \<open>One iteration of the training loop\<close>

text \<open>
  C4. An iteration of \<open>Trainer.train\<close> (one pass of the loop over \<open>batch_number\<close>) that
  raises nothing consists of \<open>num_critic_iters\<close> critic optimization steps in a row, each
  on a batch drawn anew, followed by one generator optimization step on a batch drawn
  anew; the trainer and the variable values it ends with are those the generator step
  leaves. The critic's optimizer has counted \<open>num_critic_iters\<close> more updates and the
  generator's one more; \<open>critic_losses\<close> has grown by \<open>num_critic_iters\<close> entries,
  \<open>generator_losses\<close> and \<open>wass_estimates\<close> by one each, the count of NumPy draws by
  \<open>num_critic_iters + 1\<close>; and with \<open>weight_saving_interval = 1\<close> the generator's weights
  are in the checkpoint file of that iteration. And the iteration does complete whenever
  the trainer can take steps, the interval is not zero and the checkpoint file, if due,
  can be written. The witness is iteration 0 with \<open>num_critic_iters = 1\<close>.
\<close>

theorem iteration_steps_and_history_growth:
  "(train_batch K bpe epoch batch_number (tr, w) = (None, tr', w') \<longrightarrow>
      0 \<le> num_critic_iters tr \<longrightarrow>
        (\<exists>ss s2. length ss = nat (num_critic_iters tr) + 1 \<and> ss ! 0 = (tr, w)
           \<and> (\<forall>i < nat (num_critic_iters tr). critic_step_performed K (ss ! i) (ss ! Suc i))
           \<and> generator_step_performed K (ss ! nat (num_critic_iters tr)) s2
           \<and> tr' = fst s2 \<and> vars w' = vars (snd s2))
        \<and> map_option iterations (critic_optimizer (model tr'))
            = map_option (\<lambda>k. k + nat (num_critic_iters tr))
                (map_option iterations (critic_optimizer (model tr)))
        \<and> (\<exists>g g'. generator_optimizer (model tr) = Some g
                  \<and> generator_optimizer (model tr') = Some g'
                  \<and> iterations g' = Suc (iterations g))
        \<and> int (length (critic_losses tr')) = int (length (critic_losses tr)) + num_critic_iters tr
        \<and> length (generator_losses tr') = length (generator_losses tr) + 1
        \<and> length (wass_estimates tr') = length (wass_estimates tr) + 1
        \<and> int (np_draws w') = int (np_draws w) + num_critic_iters tr + 1
        \<and> (weight_saving_interval tr = 1 \<longrightarrow>
             files w' (gen_filename (save_dir tr) (epoch * bpe + batch_number))
               = Some (map (vars w') (trainable_variables (generator (model tr'))))))
   \<and> (can_train K tr \<longrightarrow> weight_saving_interval tr \<noteq> 0 \<longrightarrow>
        ((epoch * bpe + batch_number) mod weight_saving_interval tr = 0 \<longrightarrow>
           write_error K (gen_filename (save_dir tr) (epoch * bpe + batch_number)) = None) \<longrightarrow>
        (\<exists>tr2 w2. train_batch K bpe epoch batch_number (tr, w) = (None, tr2, w2)))"
proof (intro conjI impI)
  assume run: "train_batch K bpe epoch batch_number (tr, w) = (None, tr', w')"
    and n: "0 \<le> num_critic_iters tr"
  note facts = train_batch_None [OF run]
  show "\<exists>ss s2. length ss = nat (num_critic_iters tr) + 1 \<and> ss ! 0 = (tr, w)
           \<and> (\<forall>i < nat (num_critic_iters tr). critic_step_performed K (ss ! i) (ss ! Suc i))
           \<and> generator_step_performed K (ss ! nat (num_critic_iters tr)) s2
           \<and> tr' = fst s2 \<and> vars w' = vars (snd s2)"
    by (rule train_batch_steps [OF run])
  from train_batch_optimizers [OF run]
  show "map_option iterations (critic_optimizer (model tr'))
            = map_option (\<lambda>k. k + nat (num_critic_iters tr))
                (map_option iterations (critic_optimizer (model tr)))"
    by (rule conjunct1)
  from train_batch_optimizers [OF run]
  show "\<exists>g g'. generator_optimizer (model tr) = Some g
                  \<and> generator_optimizer (model tr') = Some g'
                  \<and> iterations g' = Suc (iterations g)"
    by (rule conjunct2)
  from facts n show "int (length (critic_losses tr')) = int (length (critic_losses tr)) + num_critic_iters tr"
    by simp
  from facts show "length (generator_losses tr') = length (generator_losses tr) + 1" by simp
  from facts show "length (wass_estimates tr') = length (wass_estimates tr) + 1" by simp
  from facts n show "int (np_draws w') = int (np_draws w) + num_critic_iters tr + 1" by simp
  assume "weight_saving_interval tr = 1"
  with facts show "files w' (gen_filename (save_dir tr) (epoch * bpe + batch_number))
               = Some (map (vars w') (trainable_variables (generator (model tr'))))"
    by simp
next
  assume "can_train K tr" "weight_saving_interval tr \<noteq> 0"
    "(epoch * bpe + batch_number) mod weight_saving_interval tr = 0 \<longrightarrow>
       write_error K (gen_filename (save_dir tr) (epoch * bpe + batch_number)) = None"
  then show "\<exists>tr2 w2. train_batch K bpe epoch batch_number (tr, w) = (None, tr2, w2)"
    using train_batch_ok [of K tr epoch bpe batch_number w] by blast
qed

theorem iteration_witness:
  "fst (train_batch toy_env 2 0 0 (toy_trainer, toy_world)) = None
   \<and> (\<exists>s1 s2. critic_step_performed toy_env (toy_trainer, toy_world) s1
          \<and> generator_step_performed toy_env s1 s2
          \<and> fst (snd (train_batch toy_env 2 0 0 (toy_trainer, toy_world))) = fst s2
          \<and> vars (snd (snd (train_batch toy_env 2 0 0 (toy_trainer, toy_world)))) = vars (snd s2))
   \<and> map_option iterations
        (critic_optimizer (model (fst (snd (train_batch toy_env 2 0 0 (toy_trainer, toy_world)))))) = Some 1
   \<and> map_option iterations
        (generator_optimizer (model (fst (snd (train_batch toy_env 2 0 0 (toy_trainer, toy_world)))))) = Some 1
   \<and> length (critic_losses (fst (snd (train_batch toy_env 2 0 0 (toy_trainer, toy_world))))) = 1
   \<and> length (generator_losses (fst (snd (train_batch toy_env 2 0 0 (toy_trainer, toy_world))))) = 1
   \<and> length (wass_estimates (fst (snd (train_batch toy_env 2 0 0 (toy_trainer, toy_world))))) = 1
   \<and> np_draws (snd (snd (train_batch toy_env 2 0 0 (toy_trainer, toy_world)))) = 2
   \<and> files (snd (snd (train_batch toy_env 2 0 0 (toy_trainer, toy_world))))
        ''run/training_checkpoints/gen_0'' \<noteq> None"
proof -
  let ?r = "train_batch toy_env 2 0 0 (toy_trainer, toy_world)"
  have cfg: "num_critic_iters toy_trainer = 1" "weight_saving_interval toy_trainer = 1"
    "save_dir toy_trainer = ''run''" "critic_losses toy_trainer = []"
    "generator_losses toy_trainer = []" "wass_estimates toy_trainer = []"
    "np_draws toy_world = 0"
    by (simp_all add: toy_trainer_def toy_world_def)
  have opts: "critic_optimizer (model toy_trainer) = Some (new_optimizer RMSprop 1)"
    "generator_optimizer (model toy_trainer) = Some (new_optimizer RMSprop 1)"
    "iterations (new_optimizer RMSprop 1) = 0"
    by (simp_all add: toy_trainer_def toy_model_def new_optimizer_def)
  have wr: "write_error toy_env f = None" for f by (simp add: toy_env_def)
  note inst = iteration_steps_and_history_growth
    [of toy_env 2 0 0 toy_trainer toy_world "fst (snd ?r)" "snd (snd ?r)"]
  from inst can_train_toy cfg wr obtain tr2 w2 where ok: "?r = (None, tr2, w2)" by auto
  then have run: "?r = (None, fst (snd ?r), snd (snd ?r))" by simp
  from ok have none: "fst ?r = None" by simp
  have pos: "0 \<le> num_critic_iters toy_trainer" by (simp add: cfg)
  note concl = inst [THEN conjunct1, rule_format, OF run pos]
  from concl obtain ss s2 where
    l: "length ss = nat (num_critic_iters toy_trainer) + 1" and h: "ss ! 0 = (toy_trainer, toy_world)"
    and c: "\<forall>i < nat (num_critic_iters toy_trainer). critic_step_performed toy_env (ss ! i) (ss ! Suc i)"
    and g: "generator_step_performed toy_env (ss ! nat (num_critic_iters toy_trainer)) s2"
    and e: "fst (snd ?r) = fst s2" "vars (snd (snd ?r)) = vars (snd s2)" by blast
  from c h have c1: "critic_step_performed toy_env (toy_trainer, toy_world) (ss ! 1)"
    by (auto simp: cfg dest: spec [of _ 0])
  from g have g1: "generator_step_performed toy_env (ss ! 1) s2" by (simp add: cfg)
  from c1 g1 e have steps: "\<exists>s1 s2. critic_step_performed toy_env (toy_trainer, toy_world) s1
          \<and> generator_step_performed toy_env s1 s2
          \<and> fst (snd ?r) = fst s2 \<and> vars (snd (snd ?r)) = vars (snd s2)" by blast
  from concl opts cfg have its:
    "map_option iterations (critic_optimizer (model (fst (snd ?r)))) = Some 1"
    "map_option iterations (generator_optimizer (model (fst (snd ?r)))) = Some 1"
    by auto
  from concl cfg have rest:
    "length (critic_losses (fst (snd ?r))) = 1" "length (generator_losses (fst (snd ?r))) = 1"
    "length (wass_estimates (fst (snd ?r))) = 1" "np_draws (snd (snd ?r)) = 2"
    "files (snd (snd ?r)) ''run/training_checkpoints/gen_0'' \<noteq> None"
    by (simp_all add: gen_filename_toy)
  from none steps its rest show ?thesis by blast
qed

subsection \<open>A batch larger than the data set\<close>

lemma for_each_skip: "(\<And>i s. body i s = (None, s)) \<Longrightarrow> for_each body is s = (None, s)"
  by (induction "is") simp_all

text \<open>
  C10. When \<open>batch_size\<close> exceeds the number of training examples, \<open>train\<close> returns
  normally and leaves the trainer and the world as they were: no optimization step, no
  history entry, no checkpoint, no exception. \<open>batches_per_epoch\<close> is zero, so the loop
  body never runs and no batch is drawn.
\<close>

theorem train_with_oversized_batch_does_nothing:
  "int (num_training_examples tr) < batch_size tr \<Longrightarrow> train K (tr, w) = (None, tr, w)"
proof -
  assume a: "int (num_training_examples tr) < batch_size tr"
  then have nz: "batch_size tr \<noteq> 0" by auto
  from a have z: "int (num_training_examples tr) div batch_size tr = 0"
    by (simp add: div_pos_pos_trivial)
  have "for_each (\<lambda>epoch. for_each (\<lambda>batch_number. train_batch K 0 epoch batch_number) (py_range 0))
          (py_range (epochs tr)) (tr, w) = (None, tr, w)"
    by (rule for_each_skip) (simp add: py_range_def)
  then show ?thesis
    by (simp add: train_def nz z)
qed

theorem train_with_oversized_batch_witness:
  "train toy_env (toy_trainer\<lparr>batch_size := 3\<rparr>, toy_world) = (None, toy_trainer\<lparr>batch_size := 3\<rparr>, toy_world)"
  using train_with_oversized_batch_does_nothing [of "toy_trainer\<lparr>batch_size := 3\<rparr>" toy_env toy_world]
  by (simp add: toy_trainer_def)

text \<open>
  C7. Claimed: drawing a batch larger than the data set fails with
  \<open>InsufficientDataError\<close>. The source has no such exception; the draw fails inside
  \<^verbatim>\<open>np.random.choice\<close>, with NumPy's \<open>ValueError\<close>, before anything is drawn.
  As amended: whenever \<open>batch_size\<close> is greater than the number of training examples,
  drawing a batch fails with \<open>ValueError\<close>.
\<close>

theorem oversized_batch_raises_ValueError:
  "int (num_training_examples tr) < batch_size tr \<Longrightarrow>
     sample_batch_of_data K tr w = (Inl ValueError, w)"
  by (simp add: sample_batch_of_data_def np_random_choice_def)

theorem oversized_batch_witness:
  "sample_batch_of_data toy_env (toy_trainer\<lparr>batch_size := 3\<rparr>) toy_world = (Inl ValueError, toy_world)"
  using oversized_batch_raises_ValueError [of "toy_trainer\<lparr>batch_size := 3\<rparr>" toy_env toy_world]
  by (simp add: toy_trainer_def)

text \<open>The counterexample to C7 as stated: two examples, batch size three.\<close>

theorem oversized_batch_not_InsufficientDataError:
  "int (num_training_examples (toy_trainer\<lparr>batch_size := 3\<rparr>)) < batch_size (toy_trainer\<lparr>batch_size := 3\<rparr>)
   \<and> fst (sample_batch_of_data toy_env (toy_trainer\<lparr>batch_size := 3\<rparr>) toy_world) \<noteq> Inl InsufficientDataError"
  by (simp add: sample_batch_of_data_def np_random_choice_def toy_trainer_def)

subsection \<open>Constructing the MNIST trainer\<close>

lemma cWGAN_new_five: "cWGAN_new K cls [a, b, c, d, e] w = Inl TypeError"
  by (simp add: cWGAN_new_def)

lemma isl_and_then: "isl (and_then r f) \<longleftrightarrow> isl r \<or> isl (f (projr r))"
  by (cases r) (simp_all add: and_then_def)

lemma and_then_Inr: "and_then (Inr v) f = f v"
  by (simp add: and_then_def)

lemma and_then_Inl: "and_then (Inl e) f = Inl e"
  by (simp add: and_then_def)

text \<open>
  C9. \<open>MNISTTrainer.__init__\<close> raises for every parameter dictionary: it calls the
  constructor of \<open>cWGAN_mnist\<close> with five positional arguments, the inherited
  \<open>cWGAN.__init__\<close> takes six, and the call raises \<open>TypeError\<close>. (For a dictionary
  that lacks a key, or when the directory cannot be made, an earlier statement raises.)
\<close>

theorem MNISTTrainer_cannot_be_constructed:
  "isl (MNISTTrainer_init K params_dict w)
   \<and> cWGAN_new K CWGAN_mnist [clip, nd, gen_lr, critic_lr, gpw] w = Inl TypeError
   \<and> (make_save_directory K ''cWGAN'' = Inr sd \<longrightarrow>
      get_int params_dict ''num_critic_iters'' = Inr nci \<longrightarrow>
      get_int params_dict ''batch_size'' = Inr bs \<longrightarrow>
      params_dict ''clip_value'' = Some clip \<longrightarrow>
      params_dict ''noise_dims'' = Some nd \<longrightarrow>
      params_dict ''gen_lr'' = Some gen_lr \<longrightarrow>
      params_dict ''critic_lr'' = Some critic_lr \<longrightarrow>
      params_dict ''gp_weight'' = Some gpw \<longrightarrow>
        MNISTTrainer_init K params_dict w = Inl TypeError)"
proof (intro conjI impI)
  show "isl (MNISTTrainer_init K params_dict w)"
    by (simp add: MNISTTrainer_init_def isl_and_then cWGAN_new_five)
  show "cWGAN_new K CWGAN_mnist [clip, nd, gen_lr, critic_lr, gpw] w = Inl TypeError"
    by (rule cWGAN_new_five)
  assume "make_save_directory K ''cWGAN'' = Inr sd"
    "get_int params_dict ''num_critic_iters'' = Inr nci"
    "get_int params_dict ''batch_size'' = Inr bs"
    "params_dict ''clip_value'' = Some clip"
    "params_dict ''noise_dims'' = Some nd"
    "params_dict ''gen_lr'' = Some gen_lr"
    "params_dict ''critic_lr'' = Some critic_lr"
    "params_dict ''gp_weight'' = Some gpw"
  then show "MNISTTrainer_init K params_dict w = Inl TypeError"
    by (simp add: MNISTTrainer_init_def lookup_def and_then_Inr and_then_Inl cWGAN_new_five)
qed

theorem MNISTTrainer_witness:
  "MNISTTrainer_init toy_env toy_params toy_world = Inl TypeError
   \<and> isl (MNISTTrainer_init toy_env toy_params toy_world)
   \<and> \<not> isl (Trainer_init toy_env toy_params toy_world)"
proof -
  have sd: "make_save_directory toy_env ''cWGAN'' = Inr ''models/cWGAN/Run_0''"
    by (simp add: toy_env_def)
  have ints: "get_int toy_params ''num_critic_iters'' = Inr 1"
    "get_int toy_params ''batch_size'' = Inr 1"
    "get_int toy_params ''epochs'' = Inr 1"
    "get_int toy_params ''weight_saving_interval'' = Inr 1"
    by (simp_all add: get_int_def lookup_def and_then_def as_int_def toy_params_def)
  have vals: "toy_params ''clip_value'' = Some (PyFloat 0.01)"
    "toy_params ''noise_dims'' = Some (PyInt 1)"
    "toy_params ''gen_lr'' = Some (PyFloat 1)"
    "toy_params ''critic_lr'' = Some (PyFloat 1)"
    "toy_params ''gp_weight'' = Some (PyFloat 10)"
    "toy_params ''optimizer'' = Some (PyStr ''RMSprop'')"
    "toy_params ''data_path'' = Some (PyStr ''data'')"
    by (simp_all add: toy_params_def)
  have a: "MNISTTrainer_init toy_env toy_params toy_world = Inl TypeError"
    and b: "isl (MNISTTrainer_init toy_env toy_params toy_world)"
    using MNISTTrainer_cannot_be_constructed
      [of toy_env toy_params toy_world "PyFloat 0.01" "PyInt 1" "PyFloat 1" "PyFloat 1" "PyFloat 10"
          "''models/cWGAN/Run_0''" 1 1]
      sd ints vals by simp_all
  have ld: "load_jet_data toy_env p = Inr toy_data" for p by (simp add: toy_env_def)
  have c: "\<not> isl (Trainer_init toy_env toy_params toy_world)"
    by (simp add: Trainer_init_def sd ints vals lookup_def and_then_Inr cWGAN_new_def
        as_float_def as_int_def ld split_def)
  from a b c show ?thesis by simp
qed

subsection \<open>The Wasserstein estimate\<close>

lemma can_train_toy_mnist: "can_train toy_env toy_mnist_trainer"
  by (simp add: can_train_def toy_mnist_trainer_def toy_defs list_all_iff)

text \<open>
  C3. The estimate a generator step records is exactly \<open>- critic_loss real_output fake_output\<close>,
  where \<open>real_output\<close> is the critic on the sampled batch and \<open>fake_output\<close> the critic on
  the generator's prediction for it, the critic and the generator both called with
  \<^verbatim>\<open>training=False\<close>, at the variable values the step ends with. It holds for
  \<open>Trainer.take_generator_step\<close> and for the override of \<open>MNISTTrainer\<close>.
\<close>

theorem wasserstein_estimate_is_negated_critic_loss:
  "(take_generator_step K (tr, w) = (None, tr', w') \<longrightarrow>
      (\<exists>x y noise.
         fst (sample_batch_of_data K tr w) = Inr (x, y)
         \<and> wass_estimates tr' = wass_estimates tr @
             [- critic_loss
                  (call K (critic (model tr')) (vars w') False [x, y])
                  (call K (critic (model tr')) (vars w') False
                     [x, call K (generator (model tr')) (vars w') False [x, noise]])]))
   \<and> (mnist_take_generator_step K (tr, w) = (None, tr', w') \<longrightarrow>
      (\<exists>labels images noise.
         fst (sample_batch_of_data K tr w) = Inr (labels, images)
         \<and> wass_estimates tr' = wass_estimates tr @
             [- critic_loss
                  (call K (critic (model tr')) (vars w') False
                     [concatenate_images_labels K images labels])
                  (call K (critic (model tr')) (vars w') False
                     [concatenate_images_labels K
                        (call K (generator (model tr')) (vars w') False [labels, noise]) labels])]))"
proof (intro conjI impI)
  assume a: "take_generator_step K (tr, w) = (None, tr', w')"
  show "\<exists>x y noise.
         fst (sample_batch_of_data K tr w) = Inr (x, y)
         \<and> wass_estimates tr' = wass_estimates tr @
             [- critic_loss
                  (call K (critic (model tr')) (vars w') False [x, y])
                  (call K (critic (model tr')) (vars w') False
                     [x, call K (generator (model tr')) (vars w') False [x, noise]])]"
    using a
    by (auto simp: take_generator_step_def make_generator_predictions_def Let_def split_def
        split: prod.splits sum.splits)
next
  assume a: "mnist_take_generator_step K (tr, w) = (None, tr', w')"
  show "\<exists>labels images noise.
         fst (sample_batch_of_data K tr w) = Inr (labels, images)
         \<and> wass_estimates tr' = wass_estimates tr @
             [- critic_loss
                  (call K (critic (model tr')) (vars w') False
                     [concatenate_images_labels K images labels])
                  (call K (critic (model tr')) (vars w') False
                     [concatenate_images_labels K
                        (call K (generator (model tr')) (vars w') False [labels, noise]) labels])]"
    using a
    by (auto simp: mnist_take_generator_step_def make_generator_predictions_def Let_def split_def
        split: prod.splits sum.splits)
qed

theorem wasserstein_estimate_witness:
  "(\<exists>x y noise.
      fst (sample_batch_of_data toy_env toy_trainer toy_world) = Inr (x, y)
      \<and> wass_estimates (fst (snd (take_generator_step toy_env (toy_trainer, toy_world))))
          = wass_estimates toy_trainer @
            [- critic_loss
                 (call toy_env (critic (model (fst (snd (take_generator_step toy_env (toy_trainer, toy_world))))))
                    (vars (snd (snd (take_generator_step toy_env (toy_trainer, toy_world))))) False [x, y])
                 (call toy_env (critic (model (fst (snd (take_generator_step toy_env (toy_trainer, toy_world))))))
                    (vars (snd (snd (take_generator_step toy_env (toy_trainer, toy_world))))) False
                    [x, call toy_env (generator (model (fst (snd (take_generator_step toy_env (toy_trainer, toy_world))))))
                          (vars (snd (snd (take_generator_step toy_env (toy_trainer, toy_world))))) False [x, noise]])])
   \<and> (\<exists>labels images noise.
      fst (sample_batch_of_data toy_env toy_mnist_trainer toy_world) = Inr (labels, images)
      \<and> wass_estimates (fst (snd (mnist_take_generator_step toy_env (toy_mnist_trainer, toy_world))))
          = wass_estimates toy_mnist_trainer @
            [- critic_loss
                 (call toy_env (critic (model (fst (snd (mnist_take_generator_step toy_env (toy_mnist_trainer, toy_world))))))
                    (vars (snd (snd (mnist_take_generator_step toy_env (toy_mnist_trainer, toy_world))))) False
                    [concatenate_images_labels toy_env images labels])
                 (call toy_env (critic (model (fst (snd (mnist_take_generator_step toy_env (toy_mnist_trainer, toy_world))))))
                    (vars (snd (snd (mnist_take_generator_step toy_env (toy_mnist_trainer, toy_world))))) False
                    [concatenate_images_labels toy_env
                       (call toy_env (generator (model (fst (snd (mnist_take_generator_step toy_env (toy_mnist_trainer, toy_world))))))
                          (vars (snd (snd (mnist_take_generator_step toy_env (toy_mnist_trainer, toy_world))))) False [labels, noise])
                       labels])])"
proof -
  let ?r = "take_generator_step toy_env (toy_trainer, toy_world)"
  let ?q = "mnist_take_generator_step toy_env (toy_mnist_trainer, toy_world)"
  have c1: "trainer_class toy_trainer = Trainer" by (simp add: toy_trainer_def)
  have c2: "trainer_class toy_mnist_trainer = MNISTTrainer" by (simp add: toy_mnist_trainer_def)
  from trainer_take_generator_step_ok [OF can_train_toy, of toy_world] c1
  obtain tr1 w1 where "?r = (None, tr1, w1)"
    by (auto simp: trainer_take_generator_step_def)
  then have r: "?r = (None, fst (snd ?r), snd (snd ?r))" by simp
  from trainer_take_generator_step_ok [OF can_train_toy_mnist, of toy_world] c2
  obtain tr2 w2 where "?q = (None, tr2, w2)"
    by (auto simp: trainer_take_generator_step_def)
  then have q: "?q = (None, fst (snd ?q), snd (snd ?q))" by simp
  from wasserstein_estimate_is_negated_critic_loss
         [of toy_env toy_trainer toy_world "fst (snd ?r)" "snd (snd ?r)", THEN conjunct1, rule_format, OF r]
       wasserstein_estimate_is_negated_critic_loss
         [of toy_env toy_mnist_trainer toy_world "fst (snd ?q)" "snd (snd ?q)", THEN conjunct2, rule_format, OF q]
  show ?thesis by (rule conjI)
qed

subsection \<open>An optimizer name the constructor does not know\<close>

lemma cWGAN_init_no_optimizer:
  "optimizer \<noteq> PyStr ''RMSprop'' \<Longrightarrow> optimizer \<noteq> PyStr ''Adam'' \<Longrightarrow>
     critic_optimizer (fst (cWGAN_init K cls cv nd optimizer gl cl gw w)) = None
     \<and> generator_optimizer (fst (cWGAN_init K cls cv nd optimizer gl cl gw w)) = None"
  by (simp add: cWGAN_init_def Let_def split_def)

lemma cWGAN_new_typed:
  "cWGAN_new K cls [PyFloat cv, PyInt nd, optimizer, PyFloat gl, PyFloat cl, PyFloat gw] w
     = Inr (cWGAN_init K cls cv nd optimizer gl cl gw w)"
  by (simp add: cWGAN_new_def and_then_def as_float_def as_int_def)

text \<open>
  C6. Claimed: for an optimizer name other than "Adam" and "RMSprop" the construction of the
  model fails with \<open>ConfigurationError\<close>. The constructor has an \<^verbatim>\<open>if/elif\<close> with no
  \<^verbatim>\<open>else\<close> and raises nothing. As amended: for every optimizer value that is neither
  "Adam" nor "RMSprop", construction of the model succeeds and leaves both optimizers
  unassigned; the first critic or generator optimization step of such a model fails with
  \<open>AttributeError\<close>.
\<close>

theorem unknown_optimizer_fails_at_first_step:
  "optimizer \<noteq> PyStr ''RMSprop'' \<Longrightarrow> optimizer \<noteq> PyStr ''Adam'' \<Longrightarrow>
     cWGAN_new K cls [PyFloat cv, PyInt nd, optimizer, PyFloat gl, PyFloat cl, PyFloat gw] w
       = Inr (cWGAN_init K cls cv nd optimizer gl cl gw w)
     \<and> critic_optimizer (fst (cWGAN_init K cls cv nd optimizer gl cl gw w)) = None
     \<and> generator_optimizer (fst (cWGAN_init K cls cv nd optimizer gl cl gw w)) = None
     \<and> fst (model_train_critic K (fst (cWGAN_init K cls cv nd optimizer gl cl gw w)) x y w')
         = Inl AttributeError
     \<and> fst (model_train_generator K (fst (cWGAN_init K cls cv nd optimizer gl cl gw w)) x w')
         = Inl AttributeError"
  using cWGAN_init_no_optimizer [of optimizer K cls cv nd gl cl gw w]
  by (simp add: cWGAN_new_typed model_train_critic_None model_train_generator_None)

theorem unknown_optimizer_witness:
  "cWGAN_new toy_env CWGAN
       [PyFloat 0.01, PyInt 1, PyStr ''SGD'', PyFloat 1, PyFloat 1, PyFloat 10] toy_world
     = Inr (cWGAN_init toy_env CWGAN 0.01 1 (PyStr ''SGD'') 1 1 10 toy_world)
   \<and> critic_optimizer (fst (cWGAN_init toy_env CWGAN 0.01 1 (PyStr ''SGD'') 1 1 10 toy_world)) = None
   \<and> generator_optimizer (fst (cWGAN_init toy_env CWGAN 0.01 1 (PyStr ''SGD'') 1 1 10 toy_world)) = None
   \<and> fst (model_train_critic toy_env (fst (cWGAN_init toy_env CWGAN 0.01 1 (PyStr ''SGD'') 1 1 10 toy_world))
            [[1]] [[3]] toy_world) = Inl AttributeError
   \<and> fst (model_train_generator toy_env (fst (cWGAN_init toy_env CWGAN 0.01 1 (PyStr ''SGD'') 1 1 10 toy_world))
            [[1]] toy_world) = Inl AttributeError"
  using unknown_optimizer_fails_at_first_step
          [of "PyStr ''SGD''" toy_env CWGAN "0.01" 1 1 1 10 toy_world "[[1]]" "[[3]]" toy_world]
  by simp

text \<open>The counterexample to C6 as stated: the optimizer name "SGD".\<close>

theorem unknown_optimizer_no_ConfigurationError:
  "PyStr ''SGD'' \<noteq> PyStr ''Adam'' \<and> PyStr ''SGD'' \<noteq> PyStr ''RMSprop''
   \<and> cWGAN_new toy_env CWGAN
        [PyFloat 0.01, PyInt 1, PyStr ''SGD'', PyFloat 1, PyFloat 1, PyFloat 10] toy_world
       \<noteq> Inl ConfigurationError
   \<and> \<not> isl (cWGAN_new toy_env CWGAN
        [PyFloat 0.01, PyInt 1, PyStr ''SGD'', PyFloat 1, PyFloat 1, PyFloat 10] toy_world)"
  by (simp add: cWGAN_new_typed)

subsection \<open>Which variables a step changes\<close>

lemma model_train_critic_frame:
  "v \<notin> set (trainable_variables (critic m)) \<Longrightarrow>
     vars (snd (snd (model_train_critic K m x y w))) v = vars w v"
  by (cases "model_class m")
     (simp_all add: model_train_critic_def train_critic_frame mnist_train_critic_frame)

lemma model_train_generator_frame:
  "v \<notin> set (trainable_variables (generator m)) \<Longrightarrow>
     vars (snd (snd (model_train_generator K m x w))) v = vars w v"
  by (cases "model_class m")
     (simp_all add: model_train_generator_def train_generator_frame mnist_train_generator_frame)

lemma model_train_networks:
  "generator (fst (snd (model_train_critic K m x y w))) = generator m
   \<and> critic (fst (snd (model_train_critic K m x y w))) = critic m
   \<and> generator (fst (snd (model_train_generator K m x w))) = generator m
   \<and> critic (fst (snd (model_train_generator K m x w))) = critic m"
proof -
  have c: "generator (fst (snd (model_train_critic K m x y w))) = generator m
      \<and> critic (fst (snd (model_train_critic K m x y w))) = critic m"
  proof (cases "critic_optimizer m")
    case None
    with model_train_critic_None [of m K x y w] show ?thesis by simp
  next
    case (Some opt)
    with model_train_critic_Some [of m opt K x y w] show ?thesis by auto
  qed
  have g: "generator (fst (snd (model_train_generator K m x w))) = generator m
      \<and> critic (fst (snd (model_train_generator K m x w))) = critic m"
  proof (cases "generator_optimizer m")
    case None
    with model_train_generator_None [of m K x w] show ?thesis by simp
  next
    case (Some opt)
    with model_train_generator_Some [of m opt K x w] show ?thesis by auto
  qed
  from c g show ?thesis by simp
qed

text \<open>
  C5. A critic step changes no variable outside the critic's trainable variables, a
  generator step none outside the generator's (dense and MNIST steps alike, also when the
  step raises). The two networks of a constructed model own disjoint variables, and a
  step keeps both lists; so the generator's parameters are the same after a critic step
  as before, and the critic's after a generator step.
\<close>

theorem each_step_updates_only_its_own_network:
  "(v \<notin> set (trainable_variables (critic m)) \<longrightarrow>
      vars (snd (snd (model_train_critic K m x y w))) v = vars w v)
   \<and> (v \<notin> set (trainable_variables (generator m)) \<longrightarrow>
      vars (snd (snd (model_train_generator K m x w))) v = vars w v)
   \<and> (set (trainable_variables (generator m)) \<inter> set (trainable_variables (critic m)) = {} \<longrightarrow>
        map (vars (snd (snd (model_train_critic K m x y w)))) (trainable_variables (generator m))
          = map (vars w) (trainable_variables (generator m))
        \<and> map (vars (snd (snd (model_train_generator K m x w)))) (trainable_variables (critic m))
          = map (vars w) (trainable_variables (critic m)))
   \<and> (cWGAN_init K cls cv nd opt gl cl gw w0 = (m, w1) \<longrightarrow>
        set (trainable_variables (generator m)) \<inter> set (trainable_variables (critic m)) = {})
   \<and> generator (fst (snd (model_train_critic K m x y w))) = generator m
   \<and> critic (fst (snd (model_train_critic K m x y w))) = critic m
   \<and> generator (fst (snd (model_train_generator K m x w))) = generator m
   \<and> critic (fst (snd (model_train_generator K m x w))) = critic m"
proof -
  have a: "set (trainable_variables (generator m)) \<inter> set (trainable_variables (critic m)) = {} \<Longrightarrow>
        map (vars (snd (snd (model_train_critic K m x y w)))) (trainable_variables (generator m))
          = map (vars w) (trainable_variables (generator m))"
    by (rule map_cong [OF refl]) (auto intro: model_train_critic_frame)
  have b: "set (trainable_variables (generator m)) \<inter> set (trainable_variables (critic m)) = {} \<Longrightarrow>
        map (vars (snd (snd (model_train_generator K m x w)))) (trainable_variables (critic m))
          = map (vars w) (trainable_variables (critic m))"
    by (rule map_cong [OF refl]) (auto intro: model_train_generator_frame)
  from a b model_train_networks [of K m x y w] cWGAN_init_disjoint [of K cls cv nd opt gl cl gw w0 m w1]
  show ?thesis
    by (simp add: model_train_critic_frame model_train_generator_frame)
qed


theorem own_network_witness:
  "vars (snd (snd (model_train_critic toy_env (toy_model CWGAN) [[1]] [[3]] toy_world))) 0 = [1]
   \<and> vars (snd (snd (model_train_generator toy_env (toy_model CWGAN) [[1]] toy_world))) 1 = [2]
   \<and> map (vars (snd (snd (model_train_critic toy_env (toy_model CWGAN) [[1]] [[3]] toy_world))))
        (trainable_variables (generator (toy_model CWGAN))) = [[1]]
   \<and> map (vars (snd (snd (model_train_generator toy_env (toy_model CWGAN) [[1]] toy_world))))
        (trainable_variables (critic (toy_model CWGAN))) = [[2]]
   \<and> set (trainable_variables (generator (fst (cWGAN_init toy_env CWGAN 0.01 1 (PyStr ''Adam'') 1 1 10 toy_world))))
       \<inter> set (trainable_variables (critic (fst (cWGAN_init toy_env CWGAN 0.01 1 (PyStr ''Adam'') 1 1 10 toy_world))))
       = {}"
proof -
  have tv: "trainable_variables (generator (toy_model CWGAN)) = [0]"
    "trainable_variables (critic (toy_model CWGAN)) = [1]"
    by (simp_all add: toy_model_def)
  have w: "vars toy_world 0 = [1]" "vars toy_world 1 = [2]" by (simp_all add: toy_world_def)
  note i0 = each_step_updates_only_its_own_network
    [of 0 "toy_model CWGAN" toy_env "[[1]]" "[[3]]" toy_world]
  note i1 = each_step_updates_only_its_own_network
    [of 1 "toy_model CWGAN" toy_env "[[1]]" "[[3]]" toy_world]
  note i2 = each_step_updates_only_its_own_network
    [of 0 "fst (cWGAN_init toy_env CWGAN 0.01 1 (PyStr ''Adam'') 1 1 10 toy_world)" toy_env
        "[[1]]" "[[3]]" toy_world CWGAN "0.01" 1 "PyStr ''Adam''" 1 1 10 toy_world
        "snd (cWGAN_init toy_env CWGAN 0.01 1 (PyStr ''Adam'') 1 1 10 toy_world)"]
  from i0 tv w have a: "vars (snd (snd (model_train_critic toy_env (toy_model CWGAN) [[1]] [[3]] toy_world))) 0 = [1]"
    by simp
  from i1 tv w have b: "vars (snd (snd (model_train_generator toy_env (toy_model CWGAN) [[1]] toy_world))) 1 = [2]"
    by simp
  from i0 tv w have c: "map (vars (snd (snd (model_train_critic toy_env (toy_model CWGAN) [[1]] [[3]] toy_world))))
        (trainable_variables (generator (toy_model CWGAN))) = [[1]]"
    by simp
  from i0 tv w have d: "map (vars (snd (snd (model_train_generator toy_env (toy_model CWGAN) [[1]] toy_world))))
        (trainable_variables (critic (toy_model CWGAN))) = [[2]]"
    by simp
  from i2 have e: "set (trainable_variables (generator (fst (cWGAN_init toy_env CWGAN 0.01 1 (PyStr ''Adam'') 1 1 10 toy_world))))
       \<inter> set (trainable_variables (critic (fst (cWGAN_init toy_env CWGAN 0.01 1 (PyStr ''Adam'') 1 1 10 toy_world))))
       = {}"
    by simp
  from a b c d e show ?thesis by blast
qed

subsection \<open>A checkpoint that cannot be written\<close>

lemma for_each_abort:
  "for_each body pre s = (None, s1) \<Longrightarrow> body i s1 = (Some e, s2) \<Longrightarrow>
     for_each body (pre @ i # post) s = (Some e, s2)"
proof (induction pre arbitrary: s)
  case Nil
  then show ?case by simp
next
  case (Cons j pre)
  obtain r sj where b: "body j s = (r, sj)" by (cases "body j s") auto
  with Cons.prems(1) have r: "r = None" by (cases r) simp_all
  with b Cons.prems(1) have "for_each body pre sj = (None, s1)" by simp
  from Cons.IH [OF this Cons.prems(2)] b r show ?case by simp
qed

lemma py_range_split:
  "0 \<le> i \<Longrightarrow> i < n \<Longrightarrow> py_range n = py_range i @ i # map int [Suc (nat i)..<nat n]"
proof -
  assume a: "0 \<le> i" "i < n"
  then have "nat i < nat n" by simp
  then have "[0..<nat n] = [0..<nat i] @ nat i # [Suc (nat i)..<nat n]"
    by (metis le0 upt_add_eq_append upt_conv_Cons le_add_diff_inverse less_imp_le_nat)
  with a show ?thesis by (simp add: py_range_def)
qed

lemma save_weights_fails:
  "write_error K (gen_filename (save_dir tr) iteration) = Some e \<Longrightarrow>
     save_weights K iteration (tr, w) = (Some e, tr, w)"
  by (simp add: save_weights_result)

lemma train_batch_save_fails:
  assumes c: "for_each (\<lambda>critic_iter. take_critic_step K) (py_range (num_critic_iters (fst s))) s = (None, s1)"
    and g: "trainer_take_generator_step K s1 = (None, tr2, w2)"
    and nz: "weight_saving_interval tr2 \<noteq> 0"
    and due: "(epoch * bpe + batch_number) mod weight_saving_interval tr2 = 0"
    and fail: "write_error K (gen_filename (save_dir tr2) (epoch * bpe + batch_number)) = Some e"
  shows "train_batch K bpe epoch batch_number s = (Some e, tr2, w2)"
  using nz due save_weights_fails [OF fail, of w2]
  by (simp add: train_batch_def Let_def c g)

lemma train_aborts:
  assumes bs: "batch_size (fst s) \<noteq> 0"
    and bpe: "bpe = int (num_training_examples (fst s)) div batch_size (fst s)"
    and ep: "0 \<le> epoch" "epoch < epochs (fst s)"
    and bn: "0 \<le> batch_number" "batch_number < bpe"
    and before: "for_each (\<lambda>ep. for_each (\<lambda>b. train_batch K bpe ep b) (py_range bpe))
                   (py_range epoch) s = (None, sa)"
    and inside: "for_each (\<lambda>b. train_batch K bpe epoch b) (py_range batch_number) sa = (None, sb)"
    and raised: "train_batch K bpe epoch batch_number sb = (Some e, sc)"
  shows "train K s = (Some e, sc)"
proof -
  have inner: "for_each (\<lambda>b. train_batch K bpe epoch b) (py_range bpe) sa = (Some e, sc)"
    unfolding py_range_split [OF bn]
    by (rule for_each_abort [OF inside raised])
  have "for_each (\<lambda>ep. for_each (\<lambda>b. train_batch K bpe ep b) (py_range bpe))
          (py_range (epochs (fst s))) s = (Some e, sc)"
    unfolding py_range_split [OF ep]
    by (rule for_each_abort [OF before inner])
  then show ?thesis
    using bs bpe by (simp add: train_def Let_def)
qed

text \<open>
  C8. Claimed: a failed checkpoint write surfaces as \<open>PersistenceError\<close>, is reported, and
  training continues with the next iteration. The source has no \<^verbatim>\<open>try\<close> around the
  write: whatever exception the write raises leaves \<open>save_weights\<close> and \<open>train\<close> as it
  is, and the loops end there. As amended: if a checkpoint write fails during the training
  loop, the exception of the write propagates unchanged out of \<open>save_weights\<close> and out of
  \<open>train\<close>, which ends at that iteration and runs no later one; the failed save leaves
  the network parameters and the loss histories as they were before it.
\<close>

theorem failed_checkpoint_write_aborts_training:
  "(write_error K (gen_filename (save_dir tr) iteration) = Some e \<longrightarrow>
      save_weights K iteration (tr, w) = (Some e, tr, w))
   \<and> (for_each (\<lambda>critic_iter. take_critic_step K) (py_range (num_critic_iters (fst sb))) sb = (None, s1) \<longrightarrow>
      trainer_take_generator_step K s1 = (None, tr2, w2) \<longrightarrow>
      weight_saving_interval tr2 \<noteq> 0 \<longrightarrow>
      (epoch * bpe + batch_number) mod weight_saving_interval tr2 = 0 \<longrightarrow>
      write_error K (gen_filename (save_dir tr2) (epoch * bpe + batch_number)) = Some e \<longrightarrow>
        train_batch K bpe epoch batch_number sb = (Some e, tr2, w2))
   \<and> (batch_size (fst s) \<noteq> 0 \<longrightarrow>
      bpe = int (num_training_examples (fst s)) div batch_size (fst s) \<longrightarrow>
      0 \<le> epoch \<longrightarrow> epoch < epochs (fst s) \<longrightarrow> 0 \<le> batch_number \<longrightarrow> batch_number < bpe \<longrightarrow>
      for_each (\<lambda>ep. for_each (\<lambda>b. train_batch K bpe ep b) (py_range bpe)) (py_range epoch) s = (None, sa) \<longrightarrow>
      for_each (\<lambda>b. train_batch K bpe epoch b) (py_range batch_number) sa = (None, sb) \<longrightarrow>
      train_batch K bpe epoch batch_number sb = (Some e, sc) \<longrightarrow>
        train K s = (Some e, sc))"
  using save_weights_fails [of K tr iteration e w]
    train_batch_save_fails [of K sb s1 tr2 w2 epoch bpe batch_number e]
    train_aborts [of s bpe epoch batch_number K sa sb e sc]
  by blast

lemma can_train_failing: "can_train failing_env toy_trainer"
  by (simp add: can_train_def failing_env_def toy_defs list_all_iff)

text \<open>The first iteration of the toy run on the file system that refuses writes.\<close>

lemma failing_first_iteration:
  "\<exists>tr2 w2. train_batch failing_env 2 0 0 (toy_trainer, toy_world) = (Some OSError, tr2, w2)
      \<and> length (generator_losses tr2) = 1 \<and> length (wass_estimates tr2) = 1
      \<and> length (critic_losses tr2) = 1 \<and> files w2 = files toy_world"
proof -
  from critic_loop_ok [OF can_train_failing, of "py_range (num_critic_iters toy_trainer)" toy_world]
  obtain tr1 w1 where
    c: "for_each (\<lambda>critic_iter. take_critic_step failing_env) (py_range (num_critic_iters toy_trainer))
          (toy_trainer, toy_world) = (None, tr1, w1)"
    and ct1: "can_train failing_env tr1" by blast
  from trainer_take_generator_step_ok [OF ct1, of w1] obtain tr2 w2 where
    g: "trainer_take_generator_step failing_env (tr1, w1) = (None, tr2, w2)" by blast
  from critic_loop_None [OF c] obtain vs m1 where
    l: "length vs = length (py_range (num_critic_iters toy_trainer))"
    and tr1: "tr1 = toy_trainer\<lparr>model := m1, critic_losses := critic_losses toy_trainer @ vs\<rparr>"
    and w1: "files w1 = files toy_world" by blast
  from trainer_take_generator_step_None [OF g] obtain v e m2 where
    tr2: "tr2 = tr1\<lparr>model := m2, generator_losses := generator_losses tr1 @ [v],
                     wass_estimates := wass_estimates tr1 @ [e]\<rparr>"
    and w2: "files w2 = files w1" by blast
  have cfg: "weight_saving_interval tr2 = 1" "length (generator_losses tr2) = 1"
    "length (wass_estimates tr2) = 1" "length (critic_losses tr2) = 1"
    using tr1 tr2 l by (simp_all add: toy_trainer_def py_range_def)
  have fail: "write_error failing_env f = Some OSError" for f
    by (simp add: failing_env_def)
  have "train_batch failing_env 2 0 0 (toy_trainer, toy_world) = (Some OSError, tr2, w2)"
    by (rule train_batch_save_fails [where ?s1.0 = "(tr1, w1)"])
       (simp_all add: c g cfg fail)
  with cfg w1 w2 show ?thesis by simp
qed

text \<open>
  The counterexample to C8 as stated: two iterations are due, the first write raises
  \<open>OSError\<close>; \<open>train\<close> ends with that \<open>OSError\<close> after one generator step.
\<close>

theorem failed_checkpoint_write_counterexample:
  "fst (train failing_env (toy_trainer, toy_world)) = Some OSError
   \<and> fst (train failing_env (toy_trainer, toy_world)) \<noteq> Some PersistenceError
   \<and> length (py_range (int (num_training_examples toy_trainer) div batch_size toy_trainer))
       * length (py_range (epochs toy_trainer)) = 2
   \<and> length (generator_losses (fst (snd (train failing_env (toy_trainer, toy_world))))) = 1"
proof -
  from failing_first_iteration obtain tr2 w2 where
    it: "train_batch failing_env 2 0 0 (toy_trainer, toy_world) = (Some OSError, tr2, w2)"
    and n: "length (generator_losses tr2) = 1" by blast
  have cfg: "batch_size toy_trainer = 1" "num_training_examples toy_trainer = 2"
    "epochs toy_trainer = 1"
    by (simp_all add: toy_trainer_def)
  have "train failing_env (toy_trainer, toy_world) = (Some OSError, tr2, w2)"
    by (rule train_aborts [where epoch = 0 and batch_number = 0 and bpe = 2
          and sa = "(toy_trainer, toy_world)" and sb = "(toy_trainer, toy_world)"])
       (simp_all add: it cfg py_range_def)
  with n show ?thesis by (simp add: cfg py_range_def)
qed

theorem failed_checkpoint_write_witness:
  "save_weights failing_env 0 (toy_trainer, toy_world) = (Some OSError, toy_trainer, toy_world)
   \<and> fst (train_batch failing_env 2 0 0 (toy_trainer, toy_world)) = Some OSError
   \<and> train failing_env (toy_trainer, toy_world) = train_batch failing_env 2 0 0 (toy_trainer, toy_world)"
proof -
  let ?s = "(toy_trainer, toy_world)"
  have fail: "write_error failing_env f = Some OSError" for f
    by (simp add: failing_env_def)
  from critic_loop_ok [OF can_train_failing, of "py_range (num_critic_iters toy_trainer)" toy_world]
  obtain tr1 w1 where
    c: "for_each (\<lambda>critic_iter. take_critic_step failing_env) (py_range (num_critic_iters (fst ?s))) ?s
          = (None, tr1, w1)"
    and ct1: "can_train failing_env tr1" by auto
  from trainer_take_generator_step_ok [OF ct1, of w1] obtain tr2 w2 where
    g: "trainer_take_generator_step failing_env (tr1, w1) = (None, tr2, w2)" by blast
  from critic_loop_None [OF c [simplified]] obtain vs m1 where
    tr1: "tr1 = toy_trainer\<lparr>model := m1, critic_losses := critic_losses toy_trainer @ vs\<rparr>" by blast
  from trainer_take_generator_step_None [OF g] obtain v e m2 where
    tr2: "tr2 = tr1\<lparr>model := m2, generator_losses := generator_losses tr1 @ [v],
                     wass_estimates := wass_estimates tr1 @ [e]\<rparr>" by blast
  have wsi: "weight_saving_interval tr2 = 1" using tr1 tr2 by (simp add: toy_trainer_def)
  note inst = failed_checkpoint_write_aborts_training
    [of failing_env toy_trainer 0 OSError toy_world ?s "(tr1, w1)" tr2 w2 0 2 0 ?s ?s "(tr2, w2)"]
  from inst fail have a: "save_weights failing_env 0 ?s = (Some OSError, toy_trainer, toy_world)"
    by simp
  from inst c g wsi fail have b: "train_batch failing_env 2 0 0 ?s = (Some OSError, tr2, w2)"
    by simp
  have cfg: "batch_size toy_trainer = 1" "num_training_examples toy_trainer = 2"
    "epochs toy_trainer = 1"
    by (simp_all add: toy_trainer_def)
  from inst b have d: "train failing_env ?s = (Some OSError, tr2, w2)"
    by (simp add: cfg py_range_def)
  from a b d show ?thesis by simp
qed

end
